theory Spec2Isabelle
  imports Complex_Main "HOL-Library.Sublist"
begin

section \<open>Data model\<close>

text \<open>
  The cross-section model of \<^verbatim>\<open>leveelogic/deltares/dstability.py\<close> and the two construction
  algorithms of \<^verbatim>\<open>leveelogic/deltares/algorithms\<close>. Python floats are idealised as reals; the
  one float value the sources test for explicitly, not-a-number, is \<open>None\<close> of a
  \<open>real option\<close> in the fields the sources pass to \<^verbatim>\<open>isnan\<close>.
  Every \<^verbatim>\<open>raise\<close> and every failing builtin operation is a branch \<open>Inl e\<close> of the model.
\<close>

type_synonym point = "real \<times> real"

text \<open>
  An f-string is the list of its literal and interpolated parts; the quotation marks that the
  sources put around an interpolated soil code are left out of the literal parts.
\<close>

datatype msg_part = Txt string | Num real | Str "string option"

type_synonym message = "msg_part list"

datatype error =
    ValueError message
  | IndexError
  | AttributeError
  | TypeError
  | ZeroDivisionError
  | NotImplementedError
  | AlgorithmInputCheckError message
  | AlgorithmExecutionError message

text \<open>
  Modelled from the spec: the declaration of the enumeration \<^verbatim>\<open>CharacteristicPointType\<close>
  (\<^verbatim>\<open>leveelogic/geometry/characteristic_point.py\<close>) is not among the sources. Its members here
  are the ones the sources name, pairwise distinct as the spec's list of landmark kinds has them.
\<close>

datatype CharacteristicPointType =
    TOE_LEFT
  | CREST_LEFT
  | REFERENCE_POINT
  | CREST_RIGHT
  | TOE_RIGHT
  | START_POLDER
  | START_SURFACE
  | END_SURFACE
  | EMBANKEMENT_TOP_WATER_SIDE
  | EMBANKEMENT_TOP_LAND_SIDE
  | EMBANKEMENT_TOE_LAND_SIDE
  | EMBANKEMENT_TOE_WATER_SIDE
  | SHOULDER_BASE_LAND_SIDE

text \<open>
  Modelled from the spec: the class \<^verbatim>\<open>CharacteristicPoint\<close> is not among the sources. It is the
  pair of a landmark kind and an x-coordinate (\<open>cp_x\<close>, the attribute \<^verbatim>\<open>x\<close>), where a registered
  landmark may carry an undefined coordinate; the attribute \<^verbatim>\<open>is_valid\<close> tells the two apart.
\<close>

record CharacteristicPoint =
  cp_x :: real
  point_type :: CharacteristicPointType
  is_valid :: bool

datatype MaterialLayoutType =
    CLAY_EMBANKEMENT_ON_CLAY
  | CLAY_EMBANKEMENT_ON_SAND
  | SAND_EMBANKEMENT_ON_CLAY
  | SAND_EMBANKEMENT_ON_SAND

text \<open>A layer of the geometry: its polygon, the code of its soil and its label.\<close>

record Layer =
  Points :: "point list"
  SoilCode :: "string option"
  Label :: "string option"

text \<open>
  One entry of \<^verbatim>\<open>model.datastructure.waternetcreatorsettings\<close>, with the three values the berm
  algorithm reads (\<open>None\<close> is not-a-number).
\<close>

record WaternetCreatorSettings =
  EmbankmentToeLandSide :: "real option"
  DitchEmbankmentSide :: "real option"
  DitchLandSide :: "real option"

text \<open>
  The class \<^verbatim>\<open>DStability\<close>. \<open>layers\<close> is \<^verbatim>\<open>model._get_geometry(...).Layers\<close>, \<open>soils\<close> the soil
  codes of \<^verbatim>\<open>self.soils\<close>, \<open>head_lines\<close> the head lines of the model with the flag that marks the
  phreatic line. \<open>material_layout\<close> and \<open>ditch_points\<close> are read by the phreatic-line algorithm.
\<close>

record DStability =
  characteristic_points :: "CharacteristicPoint list"
  layers :: "Layer list"
  soils :: "string list"
  points :: "point list"
  boundary :: "point list"
  surface :: "point list"
  waternetcreatorsettings :: "WaternetCreatorSettings list"
  material_layout :: MaterialLayoutType
  ditch_points :: "point list"
  head_lines :: "(string \<times> bool \<times> point list) list"

section \<open>Builtins\<close>

definition py_min :: "real list \<Rightarrow> error + real" where
  "py_min xs = (case xs of [] \<Rightarrow> Inl (ValueError [Txt ''min() arg is an empty sequence''])
                | y # ys \<Rightarrow> Inr (foldl min y ys))"

definition py_max :: "real list \<Rightarrow> error + real" where
  "py_max xs = (case xs of [] \<Rightarrow> Inl (ValueError [Txt ''max() arg is an empty sequence''])
                | y # ys \<Rightarrow> Inr (foldl max y ys))"

text \<open>\<^verbatim>\<open>xs[-1]\<close> and \<^verbatim>\<open>xs[0]\<close>.\<close>

definition py_last :: "'a list \<Rightarrow> error + 'a" where
  "py_last xs = (if xs = [] then Inl IndexError else Inr (last xs))"

definition py_first :: "'a list \<Rightarrow> error + 'a" where
  "py_first xs = (case xs of [] \<Rightarrow> Inl IndexError | y # _ \<Rightarrow> Inr y)"

text \<open>\<^verbatim>\<open>xs.index(y)\<close>: the first position of \<open>y\<close>, ValueError when there is none.\<close>

fun index_of :: "'a list \<Rightarrow> 'a \<Rightarrow> nat option" where
  "index_of [] y = None"
| "index_of (x # xs) y = (if x = y then Some 0 else map_option Suc (index_of xs y))"

definition py_index :: "'a list \<Rightarrow> 'a \<Rightarrow> error + nat" where
  "py_index xs y = (case index_of xs y of None \<Rightarrow> Inl (ValueError [Txt ''x not in list''])
                    | Some i \<Rightarrow> Inr i)"

text \<open>\<^verbatim>\<open>round(v, 3)\<close> on the reals: to the nearest thousandth, ties to the even one.\<close>

definition py_round3 :: "real \<Rightarrow> real" where
  "py_round3 v =
     (let y = v * 1000; f = \<lfloor>y\<rfloor>; r = y - of_int f
      in (if r < 1 / 2 then of_int f
          else if 1 / 2 < r then of_int (f + 1)
          else if even f then of_int f else of_int (f + 1)) / 1000)"

definition round_point :: "point \<Rightarrow> point" where
  "round_point p = (py_round3 (fst p), py_round3 (snd p))"

section \<open>Characteristic point registry\<close>

definition singular_types :: "CharacteristicPointType list" where
  "singular_types = [TOE_LEFT, CREST_LEFT, REFERENCE_POINT, CREST_RIGHT, TOE_RIGHT,
                     START_POLDER, START_SURFACE, END_SURFACE]"

text \<open>
  The result type of \<^verbatim>\<open>get_characteristic_point\<close>,
  \<^verbatim>\<open>Optional[Union[CharacteristicPoint, List[CharacteristicPoint]]]\<close>.
\<close>

datatype cp_result =
    RNone
  | RPoint CharacteristicPoint
  | RList "CharacteristicPoint list"

definition get_characteristic_point :: "DStability \<Rightarrow> CharacteristicPointType \<Rightarrow> cp_result" where
  "get_characteristic_point ds pt =
     (if pt \<in> set singular_types
      then (case find (\<lambda>cp. point_type cp = pt) (characteristic_points ds) of
              None \<Rightarrow> RNone
            | Some cp \<Rightarrow> RPoint cp)
      else (let result = [cp \<leftarrow> characteristic_points ds. point_type cp = pt]
            in if result = [] then RNone else RList result))"

text \<open>
  Attribute access on the result. \<^verbatim>\<open>None\<close> and a list have neither \<^verbatim>\<open>is_valid\<close> nor \<^verbatim>\<open>x\<close>:
  Python raises AttributeError.
\<close>

definition attr_is_valid :: "cp_result \<Rightarrow> error + bool" where
  "attr_is_valid r = (case r of RPoint cp \<Rightarrow> Inr (is_valid cp) | _ \<Rightarrow> Inl AttributeError)"

definition attr_x :: "cp_result \<Rightarrow> error + real" where
  "attr_x r = (case r of RPoint cp \<Rightarrow> Inr (cp_x cp) | _ \<Rightarrow> Inl AttributeError)"

section \<open>Surface extraction\<close>

text \<open>
  The second half of \<^verbatim>\<open>_post_process\<close>, from \<^verbatim>\<open>self.boundary\<close> on: the boundary is rotated to
  start at the topmost of its leftmost points and cut after the topmost of its rightmost points.
\<close>

definition surface_of_boundary :: "point list \<Rightarrow> error + point list" where
  "surface_of_boundary b =
     (case py_min (map fst b) of Inl e \<Rightarrow> Inl e | Inr left \<Rightarrow>
      (case py_last (sort_key snd [p \<leftarrow> b. fst p = left]) of Inl e \<Rightarrow> Inl e | Inr topleft_point \<Rightarrow>
       (case py_max (map fst b) of Inl e \<Rightarrow> Inl e | Inr right \<Rightarrow>
        (case py_last (sort_key snd [p \<leftarrow> b. fst p = right]) of Inl e \<Rightarrow> Inl e | Inr rightmost_point \<Rightarrow>
         (case py_index b topleft_point of Inl e \<Rightarrow> Inl e | Inr idx_left \<Rightarrow>
          (let s = drop idx_left b @ take idx_left b
           in (case py_index s rightmost_point of Inl e \<Rightarrow> Inl e | Inr idx_right \<Rightarrow>
                 Inr (take (idx_right + 1) s))))))))"

text \<open>
  \<^verbatim>\<open>_post_process\<close>. The union of the layer polygons and its orientation are the geometry
  library's (\<^verbatim>\<open>shapely\<close>): \<open>ub\<close> stands for
  \<^verbatim>\<open>list(zip(*orient(unary_union(polygons), sign=-1).exterior.coords.xy))[:-1]\<close>.
  The object is updated field by field, so a failing run leaves the fields written so far.
\<close>

definition post_process ::
  "(Layer list \<Rightarrow> point list) \<Rightarrow> DStability \<Rightarrow> (error + unit) \<times> DStability" where
  "post_process ub ds =
     (let b = map round_point (ub (layers ds));
          ds1 = ds\<lparr>points := concat (map Points (layers ds)), boundary := b, surface := []\<rparr>
      in (case surface_of_boundary b of Inl e \<Rightarrow> (Inl e, ds1)
          | Inr s \<Rightarrow> (Inr (), ds1\<lparr>surface := s\<rparr>)))"

definition surface_points_between :: "DStability \<Rightarrow> real \<Rightarrow> real \<Rightarrow> point list" where
  "surface_points_between ds l r = [p \<leftarrow> surface ds. fst p \<ge> l \<and> fst p \<le> r]"

text \<open>Sequencing of fallible steps: the first exception ends the run.\<close>

definition ebind :: "error + 'a \<Rightarrow> ('a \<Rightarrow> error + 'b) \<Rightarrow> error + 'b" where
  "ebind m f = (case m of Inl e \<Rightarrow> Inl e | Inr v \<Rightarrow> f v)"

definition py_div :: "real \<Rightarrow> real \<Rightarrow> error + real" where
  "py_div a b = (if b = 0 then Inl ZeroDivisionError else Inr (a / b))"

section \<open>Geometry primitives\<close>

text \<open>
  Modelled from the spec: \<^verbatim>\<open>leveelogic/helpers.py\<close> is not among the sources. The spec has, for
  every edge of the first polyline against every edge of the second, the segment/segment
  intersection if it exists and lies within both segments, endpoints included, in the first
  polyline's edge order and then the second's; parallel and degenerate segments give none, and
  coincident points are not removed.
\<close>

definition segment_intersection :: "point \<Rightarrow> point \<Rightarrow> point \<Rightarrow> point \<Rightarrow> point option" where
  "segment_intersection p1 p2 q1 q2 =
     (let rx = fst p2 - fst p1; rz = snd p2 - snd p1;
          sx = fst q2 - fst q1; sz = snd q2 - snd q1;
          d = rx * sz - rz * sx
      in if d = 0 then None
         else (let t = ((fst q1 - fst p1) * sz - (snd q1 - snd p1) * sx) / d;
                   u = ((fst q1 - fst p1) * rz - (snd q1 - snd p1) * rx) / d
               in if 0 \<le> t \<and> t \<le> 1 \<and> 0 \<le> u \<and> u \<le> 1
                  then Some (fst q1 + u * sx, snd q1 + u * sz) else None))"

definition edges :: "point list \<Rightarrow> (point \<times> point) list" where
  "edges pl = zip pl (tl pl)"

definition polyline_polyline_intersections :: "point list \<Rightarrow> point list \<Rightarrow> point list" where
  "polyline_polyline_intersections a b =
     concat (map (\<lambda>(p1, p2). List.map_filter (\<lambda>(q1, q2). segment_intersection p1 p2 q1 q2) (edges b))
                 (edges a))"

definition line_polyline_intersections ::
  "real \<Rightarrow> real \<Rightarrow> real \<Rightarrow> real \<Rightarrow> point list \<Rightarrow> point list" where
  "line_polyline_intersections x1 z1 x2 z2 pl =
     List.map_filter (\<lambda>(q1, q2). segment_intersection (x1, z1) (x2, z2) q1 q2) (edges pl)"

section \<open>Queries on the cross-section\<close>

definition ds_left :: "DStability \<Rightarrow> error + real" where
  "ds_left ds = py_min (map fst (points ds))"

definition ds_right :: "DStability \<Rightarrow> error + real" where
  "ds_right ds = py_max (map fst (points ds))"

definition has_soilcode :: "DStability \<Rightarrow> string \<Rightarrow> bool" where
  "has_soilcode ds code = (code \<in> set (soils ds))"

text \<open>
  \<^verbatim>\<open>z_at\<close>: for every layer the pairs \<^verbatim>\<open>Points[i - 1], Points[i]\<close> with \<^verbatim>\<open>i\<close> from 1 (the test
  \<^verbatim>\<open>i == len(layer.Points)\<close> never holds in that range, so the closing edge is not visited); the
  result is the list of the distinct values, sorted from high to low.
\<close>

definition layer_zs :: "real \<Rightarrow> point list \<Rightarrow> real list" where
  "layer_zs v ps =
     concat (map (\<lambda>(p1, p2).
        if min (fst p1) (fst p2) \<le> v \<and> v \<le> max (fst p1) (fst p2)
        then [if fst p1 = fst p2 then snd p1
              else snd p1 + (v - fst p1) / (fst p2 - fst p1) * (snd p2 - snd p1)]
        else []) (edges ps))"

definition z_at :: "DStability \<Rightarrow> real \<Rightarrow> real list" where
  "z_at ds v = rev (sort (remdups (concat (map (\<lambda>l. layer_zs v (Points l)) (layers ds)))))"

text \<open>
  Modelled from the spec: \<^verbatim>\<open>DStability.add_layer\<close> is not among the sources. The spec has it
  insert a new layer polygon tagged with the soil code, and has the cached boundary and surface
  recomputed whenever the layer set changes; it names no failure of an insertion. The boundary
  and the surface of a layer set (section 4.2 of the spec) are the parameter \<open>geom\<close>; the points
  are those of all layers, as in \<^verbatim>\<open>_post_process\<close>.
\<close>

definition add_layer ::
  "(Layer list \<Rightarrow> point list \<times> point list) \<Rightarrow> DStability \<Rightarrow> point list \<Rightarrow> string option
     \<Rightarrow> string option \<Rightarrow> DStability" where
  "add_layer geom ds pts code lbl =
     (let ls = layers ds @ [\<lparr>Points = pts, SoilCode = code, Label = lbl\<rparr>]
      in ds\<lparr>layers := ls, points := concat (map Points ls),
            boundary := fst (geom ls), surface := snd (geom ls)\<rparr>)"

text \<open>
  Modelled from the spec: \<^verbatim>\<open>DStability.get_closest_point_from_x\<close> is not among the sources. The
  spec has it locate the surface point nearest the given x-coordinate; the first such point is
  taken here. The algorithms below take the method as a parameter \<open>cl\<close>, whose argument may be
  not-a-number, and this definition is one instance of it.
\<close>

definition nearest_surface_point :: "DStability \<Rightarrow> real option \<Rightarrow> error + point" where
  "nearest_surface_point ds v =
     (case (surface ds, v) of
        (p # ps, Some w) \<Rightarrow> Inr (foldl (\<lambda>best q. if \<bar>fst q - w\<bar> < \<bar>fst best - w\<bar> then q else best) p ps)
      | _ \<Rightarrow> Inl (ValueError [Txt ''no closest point'']))"

definition set_phreatic_line :: "DStability \<Rightarrow> point list \<Rightarrow> DStability" where
  "set_phreatic_line ds pts = ds\<lparr>head_lines := head_lines ds @ [(''Phreatic line'', True, pts)]\<rparr>"

section \<open>Object store\<close>

text \<open>
  The cross-section objects live in a store, addressed by position. \<^verbatim>\<open>deepcopy\<close> allocates a new
  object with the fields of the old one; a method that assigns to fields of \<^verbatim>\<open>ds\<close> writes the
  object at that address.
\<close>

type_synonym heap = "DStability list"

definition deepcopy :: "nat \<Rightarrow> heap \<Rightarrow> nat \<times> heap" where
  "deepcopy a h = (length h, h @ [h ! a])"

definition heap_call :: "nat \<Rightarrow> (DStability \<Rightarrow> DStability) \<Rightarrow> heap \<Rightarrow> heap" where
  "heap_call c m h = h[c := m (h ! c)]"

section \<open>Berm construction\<close>

text \<open>
  The algorithm takes the helper \<^verbatim>\<open>polyline_polyline_intersections\<close>, which is not among the
  sources, as the parameter \<open>ppi\<close>: what is proved of the algorithm holds for whatever the helper
  reports. In floating point it can miss an intersection at an end of the berm outline, which
  lines 149 to 152 repair; the definition of the section on geometry primitives, over the reals,
  does not.
\<close>

record AlgorithmBermWSBD =
  self_ds :: nat
  soilcode :: string
  slope_top :: real
  slope_bottom :: real
  width :: real
  height :: real
  fill_ditch :: bool
  ditch_soilcode :: "string option"
  embankement_toe_land_side :: "real option"
  ditch_embankement_side :: "real option"
  ditch_land_side :: "real option"

text \<open>
  \<^verbatim>\<open>_check_input\<close>. It reads the cross-section and stores the three landmarks in the algorithm
  object; \<^verbatim>\<open>waternetcreatorsettings[0]\<close> raises IndexError on an empty collection.
\<close>

definition berm_check_input ::
  "DStability \<Rightarrow> AlgorithmBermWSBD \<Rightarrow> error + AlgorithmBermWSBD" where
  "berm_check_input ds alg =
     ebind (if width alg > 0 \<and> height alg > 0
            then (if \<not> has_soilcode ds (soilcode alg)
                  then Inl (AlgorithmInputCheckError
                         [Txt ''AlgorithmBermWSBD got an invalid soilcode '', Str (Some (soilcode alg))])
                  else ebind (py_first (waternetcreatorsettings ds)) (\<lambda>w.
                       let alg1 = alg\<lparr>embankement_toe_land_side := EmbankmentToeLandSide w\<rparr>
                       in if embankement_toe_land_side alg1 = None
                          then Inl (AlgorithmInputCheckError [Txt ''The given stix file has no waternet creator settings where the embankement toe land side point is set which is required for this algorithm to run.''])
                          else Inr alg1))
            else Inr alg) (\<lambda>alg1.
     ebind (py_first (waternetcreatorsettings ds)) (\<lambda>w.
     ebind (py_first (waternetcreatorsettings ds)) (\<lambda>w'.
     let alg2 = alg1\<lparr>ditch_embankement_side := DitchEmbankmentSide w, ditch_land_side := DitchLandSide w'\<rparr>
     in if fill_ditch alg2
        then (if ditch_embankement_side alg2 = None \<or> ditch_land_side alg2 = None
              then Inl (AlgorithmInputCheckError [Txt ''Cannot fill the ditch since the ditch embankement side and/or the ditch land side points are missing.''])
              else if ditch_soilcode alg2 = None
              then Inl (AlgorithmInputCheckError [Txt ''Cannot fill the ditch since the ditch soilcode is not set.''])
              else if \<not> has_soilcode ds (the (ditch_soilcode alg2))
              then Inl (AlgorithmInputCheckError
                     [Txt ''Cannot fill the ditch since the ditch soilcode ('', Str (ditch_soilcode alg2), Txt '') is not valid.''])
              else Inr alg2)
        else Inr alg2)))"

text \<open>Lines 88 to 93 of \<^verbatim>\<open>_execute\<close>: the polygon of the ditch fill, read from \<^verbatim>\<open>self.ds\<close>.\<close>

definition ditch_fill_points ::
  "(DStability \<Rightarrow> real option \<Rightarrow> error + point) \<Rightarrow> DStability \<Rightarrow> AlgorithmBermWSBD
     \<Rightarrow> error + point list" where
  "ditch_fill_points cl sds alg =
     ebind (cl sds (ditch_embankement_side alg)) (\<lambda>fp1.
     ebind (cl sds (ditch_land_side alg)) (\<lambda>fp2.
     Inr ([fp1, fp2] @ rev (surface_points_between sds (fst fp1) (fst fp2)))))"

text \<open>
  Lines 101 to 117: the toe \<open>p1\<close> and the ends \<open>p3\<close>, \<open>p4\<close> of the top line. With a not-a-number
  toe every comparison of \<^verbatim>\<open>z_at\<close> is false, so its list is empty and \<^verbatim>\<open>[0]\<close> raises IndexError,
  as it does for a toe outside the layers.
\<close>

definition berm_top_line :: "DStability \<Rightarrow> AlgorithmBermWSBD \<Rightarrow> error + (point \<times> point \<times> point)" where
  "berm_top_line ds alg =
     (case embankement_toe_land_side alg of None \<Rightarrow> Inl IndexError | Some toe \<Rightarrow>
      ebind (py_first (z_at ds toe)) (\<lambda>z1.
      let p1 = (toe, z1); p2 = (toe, snd p1 + height alg)
      in ebind (ds_left ds) (\<lambda>l.
         ebind (py_div (toe - l) (slope_top alg)) (\<lambda>q3.
         let p3 = (l, snd p2 + q3)
         in ebind (ds_right ds) (\<lambda>r.
            ebind (py_div (r - toe) (slope_top alg)) (\<lambda>q4.
            let p4 = (r, snd p2 - q4)
            in Inr (p1, p3, p4)))))))"

text \<open>Lines 119 to 130: the left shoulder \<open>pA\<close> of the berm.\<close>

definition left_intersections ::
  "(point list \<Rightarrow> point list \<Rightarrow> point list) \<Rightarrow> DStability \<Rightarrow> point \<Rightarrow> point \<Rightarrow> point \<Rightarrow> point list" where
  "left_intersections ppi ds p1 p3 p4 = [p \<leftarrow> ppi [p3, p4] (surface ds). fst p < fst p1]"

definition berm_pA ::
  "(point list \<Rightarrow> point list \<Rightarrow> point list) \<Rightarrow> DStability \<Rightarrow> AlgorithmBermWSBD \<Rightarrow> error + point" where
  "berm_pA ppi ds alg =
     ebind (berm_top_line ds alg) (\<lambda>(p1, p3, p4).
     if length (left_intersections ppi ds p1 p3 p4) = 0
     then Inl (ValueError [Txt ''No intersections on the left side of x_toe, can not create a berm''])
     else Inr (last (left_intersections ppi ds p1 p3 p4)))"

text \<open>Lines 131 to 144: \<open>pB\<close> and the right end \<open>pC\<close>.\<close>

definition berm_pB :: "AlgorithmBermWSBD \<Rightarrow> point \<Rightarrow> error + point" where
  "berm_pB alg pA =
     ebind (py_div (width alg) (slope_top alg)) (\<lambda>q. Inr (fst pA + width alg, snd pA - q))"

definition berm_pC ::
  "(point list \<Rightarrow> point list \<Rightarrow> point list) \<Rightarrow> DStability \<Rightarrow> AlgorithmBermWSBD \<Rightarrow> point
     \<Rightarrow> error + point" where
  "berm_pC ppi ds alg pB =
     ebind (ds_right ds) (\<lambda>r.
     ebind (ds_right ds) (\<lambda>r'.
     ebind (py_div (r' - fst pB) (slope_bottom alg)) (\<lambda>q.
     let p5 = (r, snd pB - q);
         intersections = ppi [pB, p5] (surface ds)
     in if length intersections = 0
        then Inl (ValueError [Txt ''No intersections between point B and p5, cannot create berm''])
        else Inr (last intersections))))"

text \<open>
  Lines 146 to 152: the rounded intersections of the berm outline with the surface; \<open>pA\<close> and
  \<open>pC\<close> are put back, not rounded, when their rounded values are not in the list.
\<close>

definition berm_intersections ::
  "(point list \<Rightarrow> point list \<Rightarrow> point list) \<Rightarrow> DStability \<Rightarrow> point \<Rightarrow> point \<Rightarrow> point \<Rightarrow> point list" where
  "berm_intersections ppi ds pA pB pC =
     (let i0 = map round_point (ppi [pA, pB, pC] (surface ds));
          i1 = (if round_point pA \<notin> set i0 then pA # i0 else i0);
          i2 = (if round_point pC \<notin> set i1 then i1 @ [pC] else i1)
      in i2)"

text \<open>Lines 165 to 175: the polygon of one part of the berm, between \<open>p1\<close> and \<open>p2\<close>.\<close>

definition berm_layer_points :: "DStability \<Rightarrow> point \<Rightarrow> point \<Rightarrow> point \<Rightarrow> point list" where
  "berm_layer_points ds pB p1 p2 =
     (if fst p1 < fst pB \<and> fst pB < fst p2 then [p1, pB, p2] else [p1, p2])
     @ rev (surface_points_between ds (fst p1) (fst p2))"

text \<open>
  Lines 163 to 179: the loop over the pairs, on the copy at address \<open>c\<close>. An odd list would
  raise IndexError at \<^verbatim>\<open>intersections[i + 1]\<close>.
\<close>

fun berm_add_layers ::
  "(Layer list \<Rightarrow> point list \<times> point list) \<Rightarrow> AlgorithmBermWSBD \<Rightarrow> nat \<Rightarrow> point \<Rightarrow> point list
     \<Rightarrow> heap \<Rightarrow> (error + unit) \<times> heap" where
  "berm_add_layers geom alg c pB (p1 # p2 # rest) h =
     berm_add_layers geom alg c pB rest
       (heap_call c (\<lambda>d. add_layer geom d (berm_layer_points d pB p1 p2) (Some (soilcode alg)) None) h)"
| "berm_add_layers geom alg c pB [p1] h = (Inl IndexError, h)"
| "berm_add_layers geom alg c pB [] h = (Inr (), h)"

text \<open>Lines 87 to 94: the ditch fill, inserted into the copy.\<close>

definition berm_fill_ditch ::
  "(Layer list \<Rightarrow> point list \<times> point list) \<Rightarrow> (DStability \<Rightarrow> real option \<Rightarrow> error + point)
     \<Rightarrow> AlgorithmBermWSBD \<Rightarrow> nat \<Rightarrow> heap \<Rightarrow> (error + unit) \<times> heap" where
  "berm_fill_ditch geom cl alg c h =
     (if fill_ditch alg
      then (case ditch_fill_points cl (h ! self_ds alg) alg of
              Inl e \<Rightarrow> (Inl e, h)
            | Inr fp_points \<Rightarrow>
                (Inr (), heap_call c (\<lambda>d. add_layer geom d fp_points (ditch_soilcode alg)
                                             (Some ''ditch fill'')) h))
      else (Inr (), h))"

text \<open>Lines 98 to 181: the berm itself, built on the copy.\<close>

definition berm_build ::
  "(Layer list \<Rightarrow> point list \<times> point list) \<Rightarrow> (point list \<Rightarrow> point list \<Rightarrow> point list)
     \<Rightarrow> AlgorithmBermWSBD \<Rightarrow> nat \<Rightarrow> heap \<Rightarrow> (error + nat) \<times> heap" where
  "berm_build geom ppi alg c h =
     (if width alg \<le> 0 \<or> height alg \<le> 0 then (Inr c, h)
      else (case ebind (berm_pA ppi (h ! c) alg) (\<lambda>pA.
                 ebind (berm_pB alg pA) (\<lambda>pB.
                 ebind (berm_pC ppi (h ! c) alg pB) (\<lambda>pC. Inr (pA, pB, pC)))) of
              Inl e \<Rightarrow> (Inl e, h)
            | Inr (pA, pB, pC) \<Rightarrow>
                (let intersections = berm_intersections ppi (h ! c) pA pB pC
                 in if length intersections mod 2 \<noteq> 0
                    then (Inl (ValueError [Txt ''The berm continues outside of the right limit of the geometry, cannot create berm'']), h)
                    else (case berm_add_layers geom alg c pB intersections h of
                            (Inl e, h') \<Rightarrow> (Inl e, h')
                          | (Inr _, h') \<Rightarrow> (Inr c, h')))))"

text \<open>\<^verbatim>\<open>_execute\<close>: the result is the address of the copy.\<close>

definition berm_execute ::
  "(Layer list \<Rightarrow> point list \<times> point list) \<Rightarrow> (point list \<Rightarrow> point list \<Rightarrow> point list)
     \<Rightarrow> (DStability \<Rightarrow> real option \<Rightarrow> error + point) \<Rightarrow> AlgorithmBermWSBD
     \<Rightarrow> heap \<Rightarrow> (error + nat) \<times> heap" where
  "berm_execute geom ppi cl alg h0 =
     (case deepcopy (self_ds alg) h0 of (c, h1) \<Rightarrow>
      (case berm_fill_ditch geom cl alg c h1 of
         (Inl e, h2) \<Rightarrow> (Inl e, h2)
       | (Inr _, h2) \<Rightarrow> berm_build geom ppi alg c h2))"

section \<open>Phreatic line\<close>

record AlgorithmPhreaticLine =
  pl_self_ds :: nat
  river_level :: real
  polder_level :: real
  B_offset :: real
  C_offset :: real
  E_offset :: real
  D_offset :: "real option"
  surface_offset :: real

text \<open>One test of \<^verbatim>\<open>_check_input\<close>: \<^verbatim>\<open>if not self.ds.get_characteristic_point(t).is_valid: raise ...\<close>\<close>

definition require_valid :: "DStability \<Rightarrow> CharacteristicPointType \<Rightarrow> string \<Rightarrow> error + unit" where
  "require_valid ds pt m =
     ebind (attr_is_valid (get_characteristic_point ds pt)) (\<lambda>v.
     if \<not> v then Inl (AlgorithmInputCheckError [Txt m]) else Inr ())"

definition pl_check_input :: "DStability \<Rightarrow> error + bool" where
  "pl_check_input ds =
     ebind (require_valid ds EMBANKEMENT_TOP_WATER_SIDE
       ''The point for the embankment top waterside is not defined in the Waternet creator settings.'') (\<lambda>_.
     ebind (require_valid ds EMBANKEMENT_TOP_LAND_SIDE
       ''The point for the embankment top landside is not defined in the Waternet creator settings.'') (\<lambda>_.
     ebind (require_valid ds EMBANKEMENT_TOE_LAND_SIDE
       ''The point for the embankment toe landside is not defined in the Waternet creator settings.'') (\<lambda>_.
     ebind (require_valid ds EMBANKEMENT_TOE_WATER_SIDE
       ''The point for the embankment toe waterside is not defined in the Waternet creator settings.'') (\<lambda>_.
     Inr True))))"

text \<open>
  \<^verbatim>\<open>z_at\<close> returns a list, and Python has no subtraction between a list and a float: the
  expressions \<^verbatim>\<open>ds.z_at(v) - offset\<close> and \<^verbatim>\<open>Az - pz\<close> raise TypeError whatever the operands hold.
\<close>

definition list_minus_float :: "real list \<Rightarrow> real \<Rightarrow> error + real" where
  "list_minus_float zs v = Inl TypeError"

definition float_minus_list :: "real \<Rightarrow> real list \<Rightarrow> error + real" where
  "float_minus_list v zs = Inl TypeError"

text \<open>Point A of both layouts: the first intersection of the river level with the surface.\<close>

definition river_intersection :: "AlgorithmPhreaticLine \<Rightarrow> DStability \<Rightarrow> error + point" where
  "river_intersection alg ds =
     ebind (ds_left ds) (\<lambda>l.
     ebind (ds_right ds) (\<lambda>r.
     let intersections = line_polyline_intersections l (river_level alg) r (river_level alg) (surface ds)
     in if length intersections = 0
        then Inl (AlgorithmExecutionError
               [Txt ''No intersection with the surface and the given river level ('', Num (river_level alg),
                Txt '') found.''])
        else py_first intersections))"

text \<open>Point D.x of both layouts, from the shoulder landmark.\<close>

definition shoulder_x :: "DStability \<Rightarrow> real \<Rightarrow> real \<Rightarrow> error + real" where
  "shoulder_x ds E_x Cx =
     (let shoulder_point = get_characteristic_point ds SHOULDER_BASE_LAND_SIDE
      in ebind (attr_is_valid shoulder_point) (\<lambda>v.
         if v then attr_x shoulder_point else Inr ((E_x + Cx) / 2)))"

text \<open>Point F of both layouts.\<close>

definition outfall_point ::
  "AlgorithmPhreaticLine \<Rightarrow> DStability \<Rightarrow> real \<Rightarrow> real \<Rightarrow> real \<Rightarrow> real \<Rightarrow> error + point" where
  "outfall_point alg ds E_x E_z Dx Dz =
     (let Fz = polder_level alg
      in ebind (py_div ((E_z - Fz) * (E_x - Dx)) (E_z - Dz)) (\<lambda>q.
         let Fx = E_x + q
         in ebind (ds_right ds) (\<lambda>r.
            ebind (if Fx > r then ebind (ds_right ds) (\<lambda>r'. Inr (r' - 1 / 100, polder_level alg))
                   else Inr (Fx, Fz)) (\<lambda>F.
            if length (ditch_points ds) > 0
            then ebind (ds_left ds) (\<lambda>l.
                 ebind (ds_right ds) (\<lambda>r''.
                 let intersections = line_polyline_intersections l (polder_level alg) r'' (polder_level alg)
                                       (ditch_points ds)
                 in if length intersections > 0 then py_first intersections else Inr F))
            else Inr F))))"

text \<open>
  The control points carry a flag: \<open>False\<close> for a tuple, \<open>True\<close> for a list, whose items can be
  assigned.
\<close>

definition execute_clay_layout ::
  "AlgorithmPhreaticLine \<Rightarrow> DStability \<Rightarrow> error + (bool \<times> point) list" where
  "execute_clay_layout alg ds =
     ebind (river_intersection alg ds) (\<lambda>(Ax, Az).
     let Bx = Ax + 1; Bz = Az - B_offset alg
     in ebind (attr_x (get_characteristic_point ds EMBANKEMENT_TOP_LAND_SIDE)) (\<lambda>Cx.
        let Cz = Az - C_offset alg
        in ebind (attr_x (get_characteristic_point ds EMBANKEMENT_TOE_LAND_SIDE)) (\<lambda>E_x.
           ebind (list_minus_float (z_at ds E_x) (E_offset alg)) (\<lambda>E_z.
           ebind (shoulder_x ds E_x Cx) (\<lambda>Dx.
           ebind (case D_offset alg of
                    None \<Rightarrow> ebind (py_div (Dx - Cx) (E_x - Cx)) (\<lambda>q. Inr (Cz + q * (E_z - Cz)))
                  | Some doff \<Rightarrow> list_minus_float (z_at ds Dx) doff) (\<lambda>Dz.
           ebind (outfall_point alg ds E_x E_z Dx Dz) (\<lambda>F.
           Inr [(False, (Ax, Az)), (False, (Bx, Bz)), (False, (Cx, Cz)), (False, (Dx, Dz)),
                (False, (E_x, E_z)), (False, F)])))))))"

definition execute_sand_on_clay_layout ::
  "AlgorithmPhreaticLine \<Rightarrow> DStability \<Rightarrow> error + (bool \<times> point) list" where
  "execute_sand_on_clay_layout alg ds =
     ebind (river_intersection alg ds) (\<lambda>(Ax, Az).
     let Bx = Ax
     in ebind (attr_x (get_characteristic_point ds EMBANKEMENT_TOE_WATER_SIDE)) (\<lambda>px.
        let pz = z_at ds px
        in ebind (float_minus_list Az pz) (\<lambda>dz.
           let Bz = Az - (1 / 2) * dz
           in ebind (attr_x (get_characteristic_point ds EMBANKEMENT_TOE_LAND_SIDE)) (\<lambda>E_x.
              ebind (list_minus_float (z_at ds E_x) (E_offset alg)) (\<lambda>E_z0.
              let E_z = E_z0 + (1 / 4) * (Az - E_z0)
              in ebind (attr_x (get_characteristic_point ds EMBANKEMENT_TOP_LAND_SIDE)) (\<lambda>Cx.
                 ebind (py_div (Cx - Bx) (E_x - Bx)) (\<lambda>qc.
                 let Cz = Bz + qc * (E_z - Bz)
                 in ebind (shoulder_x ds E_x Cx) (\<lambda>Dx.
                    ebind (py_div (Dx - Cx) (E_x - Cx)) (\<lambda>qd.
                    let Dz = Cz + qd * (E_z - Cz)
                    in ebind (outfall_point alg ds E_x E_z Dx Dz) (\<lambda>F.
                       Inr [(True, (Ax, Az)), (True, (Bx, Bz)), (True, (Cx, Cz)), (True, (Dx, Dz)),
                            (True, (E_x, E_z)), (True, F)]))))))))))"

definition execute_sand_on_sand_layout ::
  "AlgorithmPhreaticLine \<Rightarrow> DStability \<Rightarrow> error + (bool \<times> point) list" where
  "execute_sand_on_sand_layout alg ds = Inl NotImplementedError"

text \<open>
  Lines 213 to 226 of \<^verbatim>\<open>_execute\<close>: between two control points the surface vertices strictly
  between them, on the straight line. The layouts return six points, so the indices exist.
\<close>

definition interpolate_between :: "DStability \<Rightarrow> point \<Rightarrow> point \<Rightarrow> (bool \<times> point) list" where
  "interpolate_between ds p1 p2 =
     map (\<lambda>p. (True, (fst p, snd p1 + (fst p - fst p1) / (fst p2 - fst p1) * (snd p2 - snd p1))))
         [p \<leftarrow> surface ds. fst p1 < fst p \<and> fst p < fst p2]"

definition pl_insert :: "DStability \<Rightarrow> (bool \<times> point) list \<Rightarrow> (bool \<times> point) list" where
  "pl_insert ds abcdef =
     concat (map (\<lambda>i. [abcdef ! i]
                       @ interpolate_between ds (snd (abcdef ! i)) (snd (abcdef ! (i + 1)))
                       @ (if i = length abcdef - 2 then [abcdef ! (i + 1)] else []))
                 [2 ..< length abcdef - 1])"

text \<open>
  Lines 229 to 236: the height check from left to right; \<open>prev\<close> is the height of the point
  before, already checked. Assigning to an item of a tuple raises TypeError.
\<close>

fun pl_clamp ::
  "DStability \<Rightarrow> AlgorithmPhreaticLine \<Rightarrow> real \<Rightarrow> real \<Rightarrow> real option \<Rightarrow> (bool \<times> point) list
     \<Rightarrow> error + point list" where
  "pl_clamp ds alg cx fx prev [] = Inr []"
| "pl_clamp ds alg cx fx prev ((m, (px, pz)) # rest) =
     ebind (if px > cx \<and> px \<le> fx
            then (let z_surface = z_at ds px
                  in ebind (list_minus_float z_surface (surface_offset alg)) (\<lambda>lim.
                     ebind (if pz > lim
                            then ebind (list_minus_float z_surface (surface_offset alg)) (\<lambda>v.
                                 if m then Inr v else Inl TypeError)
                            else Inr pz) (\<lambda>z1.
                     (case prev of
                        Some pv \<Rightarrow> if z1 > pv then (if m then Inr pv else Inl TypeError) else Inr z1
                      | None \<Rightarrow> Inr z1))))
            else Inr pz) (\<lambda>z.
     ebind (pl_clamp ds alg cx fx (Some z) rest) (\<lambda>r. Inr ((px, z) # r)))"

text \<open>Lines 209 to 238: the points of the phreatic line from the control points.\<close>

definition pl_points ::
  "AlgorithmPhreaticLine \<Rightarrow> DStability \<Rightarrow> (bool \<times> point) list \<Rightarrow> error + point list" where
  "pl_points alg ds abcdef =
     ebind (ds_left ds) (\<lambda>l.
     let plpoints = [(True, (l, river_level alg))] @ take 2 abcdef @ pl_insert ds abcdef
     in ebind (pl_clamp ds alg (fst (snd (abcdef ! 2))) (fst (snd (last abcdef))) None plpoints) (\<lambda>pl1.
        ebind (ds_right ds) (\<lambda>r. Inr (pl1 @ [(r, polder_level alg)]))))"

text \<open>\<^verbatim>\<open>_execute\<close>: the result is the address of the copy, which holds the new phreatic line.\<close>

definition pl_execute :: "AlgorithmPhreaticLine \<Rightarrow> heap \<Rightarrow> (error + nat) \<times> heap" where
  "pl_execute alg h0 =
     (case deepcopy (pl_self_ds alg) h0 of (c, h1) \<Rightarrow>
      (case ebind (if material_layout (h1 ! c) = CLAY_EMBANKEMENT_ON_CLAY
                      \<or> material_layout (h1 ! c) = CLAY_EMBANKEMENT_ON_SAND
                   then execute_clay_layout alg (h1 ! c)
                   else if material_layout (h1 ! c) = SAND_EMBANKEMENT_ON_CLAY
                   then execute_sand_on_clay_layout alg (h1 ! c)
                   else execute_sand_on_sand_layout alg (h1 ! c))
                  (pl_points alg (h1 ! c)) of
         Inl e \<Rightarrow> (Inl e, h1)
       | Inr plpoints \<Rightarrow> (Inr c, h1[c := set_phreatic_line (h1 ! c) plpoints])))"

section \<open>Example cross-sections\<close>

text \<open>
  Cross-sections of one layer, given by the polygon of the layer (clockwise, from its top left
  corner) and the surface that \<^verbatim>\<open>_post_process\<close> derives from it.
\<close>

definition cross_section :: "point list \<Rightarrow> point list \<Rightarrow> CharacteristicPoint list \<Rightarrow> DStability" where
  "cross_section poly sf cps =
     \<lparr>characteristic_points = cps,
      layers = [\<lparr>Points = poly, SoilCode = Some ''clay'', Label = None\<rparr>],
      soils = [''clay''],
      points = poly,
      boundary = poly,
      surface = sf,
      waternetcreatorsettings = [],
      material_layout = CLAY_EMBANKEMENT_ON_CLAY,
      ditch_points = [],
      head_lines = []\<rparr>"

text \<open>The union of a single polygon is that polygon.\<close>

definition single_layer_union :: "Layer list \<Rightarrow> point list" where
  "single_layer_union ls = (case ls of [l] \<Rightarrow> Points l | _ \<Rightarrow> [])"

definition berm_alg :: "string \<Rightarrow> real \<Rightarrow> real \<Rightarrow> real \<Rightarrow> real \<Rightarrow> real \<Rightarrow> AlgorithmBermWSBD" where
  "berm_alg code toe st sb w ht =
     \<lparr>self_ds = 0, soilcode = code, slope_top = st, slope_bottom = sb, width = w, height = ht,
      fill_ditch = False, ditch_soilcode = None, embankement_toe_land_side = Some toe,
      ditch_embankement_side = None, ditch_land_side = None\<rparr>"

text \<open>A slope that rises from (0, 0) to (20, 8), with the four embankment landmarks registered.\<close>

definition slope_polygon :: "point list" where
  "slope_polygon = [(0, 0), (20, 8), (20, -2), (0, -2)]"

definition ds_slope :: DStability where
  "ds_slope = cross_section slope_polygon (take 2 slope_polygon)
     [\<lparr>cp_x = 8, point_type = EMBANKEMENT_TOP_WATER_SIDE, is_valid = True\<rparr>,
      \<lparr>cp_x = 12, point_type = EMBANKEMENT_TOP_LAND_SIDE, is_valid = True\<rparr>,
      \<lparr>cp_x = 16, point_type = EMBANKEMENT_TOE_LAND_SIDE, is_valid = True\<rparr>,
      \<lparr>cp_x = 4, point_type = EMBANKEMENT_TOE_WATER_SIDE, is_valid = True\<rparr>]"

definition alg_clay :: AlgorithmPhreaticLine where
  "alg_clay = \<lparr>pl_self_ds = 0, river_level = 4, polder_level = 0, B_offset = 1, C_offset = 3 / 2,
               E_offset = 0, D_offset = None, surface_offset = 0\<rparr>"

text \<open>A polygon whose top edge overhangs: from (5, 5) the outline runs back to (4, 3).\<close>

definition overhang_polygon :: "point list" where
  "overhang_polygon = [(0, 5), (5, 5), (4, 3), (10, 3), (10, 0), (0, 0)]"

definition ds_overhang :: DStability where
  "ds_overhang = cross_section overhang_polygon [] []"

text \<open>A ditch between x = 0 and x = 2.\<close>

definition ditch_polygon :: "point list" where
  "ditch_polygon = [(0, 0), (1, -1), (2, 0), (2, -3), (0, -3)]"

definition ds_ditch :: DStability where
  "ds_ditch = cross_section ditch_polygon (take 3 ditch_polygon) []"

definition alg_ditch :: AlgorithmBermWSBD where
  "alg_ditch = (berm_alg ''clay'' 1 10 1 0 0)
     \<lparr>fill_ditch := True, ditch_soilcode := Some ''clay'',
      ditch_embankement_side := Some 0, ditch_land_side := Some 2\<rparr>"

text \<open>
  The boundary and the surface that \<^verbatim>\<open>_post_process\<close> derives from the union \<open>ub\<close> of a layer
  set: an instance of the parameter \<open>geom\<close> of \<open>add_layer\<close>.
\<close>

definition recomputed_geometry :: "(Layer list \<Rightarrow> point list) \<Rightarrow> Layer list \<Rightarrow> point list \<times> point list" where
  "recomputed_geometry ub ls =
     (let b = map round_point (ub ls)
      in (b, case surface_of_boundary b of Inl e \<Rightarrow> [] | Inr s \<Rightarrow> s))"

text \<open>
  A helper that reports no intersection at a vertex of the first polyline, as a floating-point
  run does when the position of the intersection on the segment falls just outside the segment.
\<close>

definition vertex_blind_intersections :: "point list \<Rightarrow> point list \<Rightarrow> point list" where
  "vertex_blind_intersections a b = [p \<leftarrow> polyline_polyline_intersections a b. p \<notin> set a]"

text \<open>
  A levee: crest at z = 10 up to x = 10, a slope down to the toe at (20, 0), flat land to
  x = 40. \<open>bermed_polygon\<close> is its outline with the berm of width 6 and height 2 on the slope, and
  \<open>levee_union\<close> the union of the layers before and after that berm is inserted.
\<close>

definition levee_polygon :: "point list" where
  "levee_polygon = [(0, 10), (10, 10), (20, 0), (40, 0), (40, -5), (0, -5)]"

definition ds_levee :: DStability where
  "ds_levee = cross_section levee_polygon (take 4 levee_polygon) []"

definition bermed_polygon :: "point list" where
  "bermed_polygon = [(0, 10), (10, 10), (8889 / 500, 1111 / 500), (214 / 9, 73 / 45), (127 / 5, 0),
                     (40, 0), (40, -5), (0, -5)]"

definition levee_union :: "Layer list \<Rightarrow> point list" where
  "levee_union ls = (if length ls \<le> 1 then levee_polygon else bermed_polygon)"

text \<open>
  A levee with a ridge on its land side: the surface falls from the crest to (12, 0), rises to
  (14, 6) and falls to the toe at (20, 0). Its x-coordinates are non-decreasing.
\<close>

definition ridge_polygon :: "point list" where
  "ridge_polygon = [(0, 10), (10, 10), (12, 0), (14, 6), (20, 0), (40, 0), (40, -5), (0, -5)]"

definition ds_ridge :: DStability where
  "ds_ridge = cross_section ridge_polygon (take 6 ridge_polygon) []"

text \<open>Flat land at z = 0.\<close>

definition flat_polygon :: "point list" where
  "flat_polygon = [(0, 0), (40, 0), (40, -5), (0, -5)]"

definition ds_flat :: DStability where
  "ds_flat = cross_section flat_polygon (take 2 flat_polygon) []"

text \<open>
  A levee with a cave in its land side: below the face at x = 10 the outline runs back to
  x = 5 under a ceiling that has a notch between x = 5 and x = 7, and leaves along the floor at
  z = 1. The polygon is simple and clockwise.
\<close>

definition cave_polygon :: "point list" where
  "cave_polygon = [(0, 9), (10, 9), (10, 4), (7, 4), (7, 7), (5, 7), (5, 1), (20, 1), (20, -2), (0, -2)]"

definition ds_cave :: DStability where
  "ds_cave = cross_section cave_polygon (take 8 cave_polygon) []"

section \<open>Lemmas\<close>

lemma find_Some_in: "find P xs = Some y \<Longrightarrow> y \<in> set xs \<and> P y"
  by (induction xs) (auto split: if_splits)

lemma multi_valued_is_valid:
  "pt \<notin> set singular_types \<Longrightarrow> attr_is_valid (get_characteristic_point ds pt) = Inl AttributeError"
  by (simp add: get_characteristic_point_def attr_is_valid_def Let_def)

lemma multi_valued_x:
  "pt \<notin> set singular_types \<Longrightarrow> attr_x (get_characteristic_point ds pt) = Inl AttributeError"
  by (simp add: get_characteristic_point_def attr_x_def Let_def)

lemma foldl_min_Min: "foldl min (y::real) ys = Min (set (y # ys))"
proof (induction ys arbitrary: y)
  case Nil
  show ?case by simp
next
  case (Cons a ys)
  have "foldl min y (a # ys) = Min (set (min y a # ys))"
    using Cons.IH [of "min y a"] by simp
  also have "\<dots> = Min (set (y # a # ys))"
    by (cases "ys = []") (simp_all add: min.assoc)
  finally show ?case .
qed

lemma foldl_max_Max: "foldl max (y::real) ys = Max (set (y # ys))"
proof (induction ys arbitrary: y)
  case Nil
  show ?case by simp
next
  case (Cons a ys)
  have "foldl max y (a # ys) = Max (set (max y a # ys))"
    using Cons.IH [of "max y a"] by simp
  also have "\<dots> = Max (set (y # a # ys))"
    by (cases "ys = []") (simp_all add: max.assoc)
  finally show ?case .
qed

lemma py_min_Min: "xs \<noteq> [] \<Longrightarrow> py_min xs = Inr (Min (set xs))"
  by (cases xs) (simp_all add: py_min_def foldl_min_Min del: set_simps)

lemma py_max_Max: "xs \<noteq> [] \<Longrightarrow> py_max xs = Inr (Max (set xs))"
  by (cases xs) (simp_all add: py_max_def foldl_max_Max del: set_simps)

lemma index_of_Some:
  "y \<in> set xs \<Longrightarrow>
     \<exists>i. index_of xs y = Some i \<and> i < length xs \<and> xs ! i = y \<and> (\<forall>k < i. xs ! k \<noteq> y)"
proof (induction xs)
  case Nil
  then show ?case by simp
next
  case (Cons a xs)
  show ?case
  proof (cases "a = y")
    case True
    then show ?thesis by simp
  next
    case False
    then have "y \<in> set xs" using Cons.prems by simp
    then obtain i where i: "index_of xs y = Some i" "i < length xs" "xs ! i = y" "\<forall>k < i. xs ! k \<noteq> y"
      using Cons.IH by blast
    have "(a # xs) ! k \<noteq> y" if "k < Suc i" for k
      using that False i(4) by (cases k) auto
    then show ?thesis using False i by auto
  qed
qed

lemma sort_key_not_Nil: "xs \<noteq> [] \<Longrightarrow> sort_key f xs \<noteq> []"
  by (metis length_sort length_0_conv)

lemma sorted_le_last: "sorted xs \<Longrightarrow> v \<in> set xs \<Longrightarrow> v \<le> last (xs :: ('a::linorder) list)"
proof (induction xs)
  case Nil
  then show ?case by simp
next
  case (Cons a xs)
  show ?case
  proof (cases "xs = []")
    case True
    then show ?thesis using Cons.prems by simp
  next
    case False
    then have "last xs \<in> set xs" by simp
    then show ?thesis using Cons False by auto
  qed
qed

lemma topmost_last:
  assumes "xs \<noteq> []"
  shows "last (sort_key snd xs) \<in> set xs"
    and "\<forall>p \<in> set xs. snd p \<le> snd (last (sort_key snd xs))"
proof -
  let ?s = "sort_key snd xs"
  have ne: "?s \<noteq> []" using assms by (rule sort_key_not_Nil)
  have "last ?s \<in> set ?s" using ne by (rule last_in_set)
  then show "last ?s \<in> set xs" by simp
  have srt: "sorted (map snd ?s)" by simp
  have "snd p \<le> snd (last ?s)" if "p \<in> set xs" for p
  proof -
    have "snd p \<in> set (map snd ?s)" using that by simp
    then have "snd p \<le> last (map snd ?s)" using srt sorted_le_last by blast
    then show ?thesis using ne by (simp add: last_map)
  qed
  then show "\<forall>p \<in> set xs. snd p \<le> snd (last ?s)" by blast
qed

lemma surface_of_boundary_props:
  assumes "b \<noteq> []"
  shows "\<exists>s i j. surface_of_boundary b = Inr s
           \<and> i < length b \<and> j < length b
           \<and> (\<forall>k < i. b ! k \<noteq> b ! i)
           \<and> (\<forall>k < j. (drop i b @ take i b) ! k \<noteq> (drop i b @ take i b) ! j)
           \<and> s = take (Suc j) (drop i b @ take i b)
           \<and> hd s = b ! i \<and> last s = (drop i b @ take i b) ! j
           \<and> s \<noteq> [] \<and> set s \<subseteq> set b
           \<and> fst (hd s) = Min (fst ` set b) \<and> (\<forall>p \<in> set b. fst p = fst (hd s) \<longrightarrow> snd p \<le> snd (hd s))
           \<and> fst (last s) = Max (fst ` set b) \<and> (\<forall>p \<in> set b. fst p = fst (last s) \<longrightarrow> snd p \<le> snd (last s))"
proof -
  define l where "l = Min (fst ` set b)"
  define r where "r = Max (fst ` set b)"
  define tl where "tl = last (sort_key snd [p \<leftarrow> b. fst p = l])"
  define rm where "rm = last (sort_key snd [p \<leftarrow> b. fst p = r])"
  have mb: "map fst b \<noteq> []" using assms by simp
  have pmin: "py_min (map fst b) = Inr l" using py_min_Min [OF mb] by (simp add: l_def)
  have pmax: "py_max (map fst b) = Inr r" using py_max_Max [OF mb] by (simp add: r_def)
  have "l \<in> fst ` set b" unfolding l_def using assms by (intro Min_in) auto
  then have fl: "[p \<leftarrow> b. fst p = l] \<noteq> []" by (auto simp: filter_empty_conv)
  have "r \<in> fst ` set b" unfolding r_def using assms by (intro Max_in) auto
  then have fr: "[p \<leftarrow> b. fst p = r] \<noteq> []" by (auto simp: filter_empty_conv)
  have tl_in: "tl \<in> set b" "fst tl = l" and tl_top: "\<forall>p \<in> set b. fst p = l \<longrightarrow> snd p \<le> snd tl"
    using topmost_last [OF fl] by (auto simp: tl_def)
  have rm_in: "rm \<in> set b" "fst rm = r" and rm_top: "\<forall>p \<in> set b. fst p = r \<longrightarrow> snd p \<le> snd rm"
    using topmost_last [OF fr] by (auto simp: rm_def)
  obtain i where i: "index_of b tl = Some i" "i < length b" "b ! i = tl" "\<forall>k < i. b ! k \<noteq> tl"
    using index_of_Some [OF tl_in(1)] by blast
  define s where "s = drop i b @ take i b"
  have set_s: "set s = set b" unfolding s_def by (metis append_take_drop_id set_append sup_commute)
  have len_s: "length s = length b" unfolding s_def using i(2) by simp
  have hd_s: "hd s = tl" unfolding s_def using i by (simp add: hd_drop_conv_nth)
  obtain j where j: "index_of s rm = Some j" "j < length s" "s ! j = rm" "\<forall>k < j. s ! k \<noteq> rm"
    using index_of_Some [of rm s] rm_in set_s by blast
  define t where "t = take (Suc j) s"
  have t_ne: "t \<noteq> []" unfolding t_def using j by auto
  have hd_t: "hd t = tl" unfolding t_def using hd_s j by (cases s) auto
  have last_t: "last t = rm" unfolding t_def using j
    by (simp add: take_Suc_conv_app_nth)
  have set_t: "set t \<subseteq> set b" unfolding t_def using set_s by (metis set_take_subset)
  have res: "surface_of_boundary b = Inr t"
    unfolding surface_of_boundary_def
    using pmin pmax sort_key_not_Nil [OF fl, of snd] sort_key_not_Nil [OF fr, of snd] i j
    by (simp add: py_last_def py_index_def tl_def [symmetric] rm_def [symmetric] s_def [symmetric] t_def Let_def)
  have first_i: "\<forall>k < i. b ! k \<noteq> b ! i" using i(3,4) by simp
  have first_j: "\<forall>k < j. s ! k \<noteq> s ! j" using j(3,4) by simp
  have ends: "hd t = b ! i" "last t = s ! j" using hd_t last_t i(3) j(3) by simp_all
  have props: "fst (hd t) = Min (fst ` set b)" "\<forall>p \<in> set b. fst p = fst (hd t) \<longrightarrow> snd p \<le> snd (hd t)"
    "fst (last t) = Max (fst ` set b)" "\<forall>p \<in> set b. fst p = fst (last t) \<longrightarrow> snd p \<le> snd (last t)"
    using hd_t last_t tl_in rm_in tl_top rm_top by (auto simp: l_def r_def)
  have "surface_of_boundary b = Inr t \<and> i < length b \<and> j < length b
           \<and> (\<forall>k < i. b ! k \<noteq> b ! i) \<and> (\<forall>k < j. s ! k \<noteq> s ! j)
           \<and> t = take (Suc j) s \<and> hd t = b ! i \<and> last t = s ! j \<and> t \<noteq> [] \<and> set t \<subseteq> set b
           \<and> fst (hd t) = Min (fst ` set b) \<and> (\<forall>p \<in> set b. fst p = fst (hd t) \<longrightarrow> snd p \<le> snd (hd t))
           \<and> fst (last t) = Max (fst ` set b) \<and> (\<forall>p \<in> set b. fst p = fst (last t) \<longrightarrow> snd p \<le> snd (last t))"
    using res i(2) j(2) len_s first_i first_j ends t_ne set_t props by (simp add: t_def)
  then show ?thesis unfolding s_def by blast
qed

lemma segment_intersection_x:
  assumes "segment_intersection a b q1 q2 = Some v" and "fst q1 \<le> fst q2"
  shows "fst q1 \<le> fst v \<and> fst v \<le> fst q2"
proof -
  obtain u where u: "0 \<le> u" "u \<le> 1" and v: "fst v = fst q1 + u * (fst q2 - fst q1)"
    using assms(1) by (auto simp: segment_intersection_def Let_def split: if_splits)
  have d: "0 \<le> fst q2 - fst q1" using assms(2) by simp
  have "0 \<le> u * (fst q2 - fst q1)" using u(1) d by simp
  moreover have "u * (fst q2 - fst q1) \<le> 1 * (fst q2 - fst q1)"
    using u(2) d by (rule mult_right_mono)
  ultimately show ?thesis using v by simp
qed

lemma edges_Cons2: "edges (p # q # ps) = (p, q) # edges (q # ps)"
  by (simp add: edges_def)

lemma intersections_sorted_aux:
  "sorted (map fst sf) \<Longrightarrow>
     sorted (map fst (List.map_filter (\<lambda>(q1, q2). segment_intersection a b q1 q2) (edges sf)))
     \<and> (\<forall>v \<in> set (List.map_filter (\<lambda>(q1, q2). segment_intersection a b q1 q2) (edges sf)).
            fst (hd sf) \<le> fst v)"
proof (induction sf rule: induct_list012)
  case 1
  show ?case by (simp add: edges_def List.map_filter_simps)
next
  case (2 p)
  show ?case by (simp add: edges_def List.map_filter_simps)
next
  case (3 p q ps)
  let ?f = "\<lambda>(q1, q2). segment_intersection a b q1 q2"
  have pq: "fst p \<le> fst q" and srt: "sorted (map fst (q # ps))" using "3.prems" by auto
  have ih: "sorted (map fst (List.map_filter ?f (edges (q # ps))))"
    "\<forall>v \<in> set (List.map_filter ?f (edges (q # ps))). fst q \<le> fst v"
    using "3.IH"(2) [OF srt] by auto
  show ?case
  proof (cases "segment_intersection a b p q")
    case None
    then show ?thesis using ih pq by (auto simp: edges_Cons2 List.map_filter_simps)
  next
    case (Some v)
    then have "fst p \<le> fst v" "fst v \<le> fst q" using segment_intersection_x pq by blast+
    then show ?thesis using ih Some by (auto simp: edges_Cons2 List.map_filter_simps)
  qed
qed

lemma top_line_intersections_sorted:
  "sorted (map fst sf) \<Longrightarrow> sorted (map fst (polyline_polyline_intersections [p3, p4] sf))"
  using intersections_sorted_aux [of sf p3 p4]
  by (simp add: polyline_polyline_intersections_def edges_def)

lemma heap_call_frame: "length (heap_call c m h) = length h \<and> take c (heap_call c m h) = take c h"
  by (simp add: heap_call_def)

lemma heap_call_at: "c < length h \<Longrightarrow> heap_call c m h ! c = m (h ! c)"
  by (simp add: heap_call_def)

lemma add_layer_layers:
  "layers (add_layer geom d pts code lbl) = layers d @ [\<lparr>Points = pts, SoilCode = code, Label = lbl\<rparr>]"
  by (simp add: add_layer_def Let_def)

lemma berm_add_layers_frame:
  "length (snd (berm_add_layers geom alg c pB ps h)) = length h
   \<and> take c (snd (berm_add_layers geom alg c pB ps h)) = take c h"
proof (induction ps arbitrary: h rule: induct_list012)
  case 1
  show ?case by simp
next
  case (2 p)
  show ?case by simp
next
  case (3 p q ps)
  let ?h1 = "heap_call c (\<lambda>d. add_layer geom d (berm_layer_points d pB p q) (Some (soilcode alg)) None) h"
  have "length ?h1 = length h \<and> take c ?h1 = take c h" by (rule heap_call_frame)
  then show ?case using "3.IH"(1) [of ?h1] by simp
qed

lemma berm_add_layers_even:
  "even (length ps) \<Longrightarrow> c < length h \<Longrightarrow>
     \<exists>h' new. berm_add_layers geom alg c pB ps h = (Inr (), h')
        \<and> layers (h' ! c) = layers (h ! c) @ new
        \<and> length new = length ps div 2
        \<and> (\<forall>i < length new. SoilCode (new ! i) = Some (soilcode alg)
               \<and> hd (Points (new ! i)) = ps ! (2 * i)
               \<and> ps ! (2 * i + 1) \<in> set (Points (new ! i)))"
proof (induction ps arbitrary: h rule: induct_list012)
  case 1
  show ?case by simp
next
  case (2 p)
  then show ?case by simp
next
  case (3 p q ps)
  let ?pts = "berm_layer_points (h ! c) pB p q"
  let ?l = "\<lparr>Points = ?pts, SoilCode = Some (soilcode alg), Label = None\<rparr>"
  let ?h1 = "heap_call c (\<lambda>d. add_layer geom d (berm_layer_points d pB p q) (Some (soilcode alg)) None) h"
  have at: "layers (?h1 ! c) = layers (h ! c) @ [?l]"
    using "3.prems"(2) by (simp add: heap_call_at add_layer_layers)
  have ev: "even (length ps)" and c1: "c < length ?h1"
    using "3.prems" heap_call_frame [of c _ h] by auto
  obtain h' new where ih: "berm_add_layers geom alg c pB ps ?h1 = (Inr (), h')"
    "layers (h' ! c) = layers (?h1 ! c) @ new" "length new = length ps div 2"
    "\<forall>i < length new. SoilCode (new ! i) = Some (soilcode alg)
        \<and> hd (Points (new ! i)) = ps ! (2 * i) \<and> ps ! (2 * i + 1) \<in> set (Points (new ! i))"
    using "3.IH"(1) [OF ev c1] by blast
  have pts: "hd ?pts = p" "q \<in> set ?pts" by (auto simp: berm_layer_points_def)
  have run: "berm_add_layers geom alg c pB (p # q # ps) h = (Inr (), h')"
    using ih(1) by simp
  have lay: "layers (h' ! c) = layers (h ! c) @ (?l # new)"
    using ih(2) at by simp
  have len: "length (?l # new) = length (p # q # ps) div 2"
    using ih(3) by simp
  have each: "SoilCode ((?l # new) ! i) = Some (soilcode alg)
        \<and> hd (Points ((?l # new) ! i)) = (p # q # ps) ! (2 * i)
        \<and> (p # q # ps) ! (2 * i + 1) \<in> set (Points ((?l # new) ! i))" if "i < length (?l # new)" for i
  proof (cases i)
    case 0
    then show ?thesis using pts by simp
  next
    case (Suc j)
    then have "j < length new" using that by simp
    then show ?thesis using ih(4) Suc by simp
  qed
  show ?case using run lay len each by blast
qed

section \<open>Claims\<close>

text \<open>
  C1, as the code has it. For a non-empty boundary \<^verbatim>\<open>_post_process\<close> succeeds, and the surface is
  a run of the boundary taken as a cycle: it starts at the first occurrence of the topmost of
  the boundary points with the least x, follows the boundary from there, and ends at the first
  occurrence, from there on, of the topmost of the boundary points with the greatest x. Nothing
  orders the x-coordinates in between.
\<close>

theorem post_process_surface_ends:
  assumes "ub (layers ds) \<noteq> []"
  shows "\<exists>ds' i j. post_process ub ds = (Inr (), ds')
           \<and> boundary ds' = map round_point (ub (layers ds))
           \<and> i < length (boundary ds') \<and> j < length (boundary ds')
           \<and> (\<forall>k < i. boundary ds' ! k \<noteq> boundary ds' ! i)
           \<and> (\<forall>k < j. (drop i (boundary ds') @ take i (boundary ds')) ! k
                          \<noteq> (drop i (boundary ds') @ take i (boundary ds')) ! j)
           \<and> surface ds' = take (Suc j) (drop i (boundary ds') @ take i (boundary ds'))
           \<and> hd (surface ds') = boundary ds' ! i
           \<and> last (surface ds') = (drop i (boundary ds') @ take i (boundary ds')) ! j
           \<and> surface ds' \<noteq> [] \<and> set (surface ds') \<subseteq> set (boundary ds')
           \<and> fst (hd (surface ds')) = Min (fst ` set (boundary ds'))
           \<and> (\<forall>p \<in> set (boundary ds'). fst p = fst (hd (surface ds')) \<longrightarrow> snd p \<le> snd (hd (surface ds')))
           \<and> fst (last (surface ds')) = Max (fst ` set (boundary ds'))
           \<and> (\<forall>p \<in> set (boundary ds'). fst p = fst (last (surface ds')) \<longrightarrow> snd p \<le> snd (last (surface ds')))"
proof -
  define b where "b = map round_point (ub (layers ds))"
  have "b \<noteq> []" using assms by (simp add: b_def)
  from surface_of_boundary_props [OF this]
  obtain s i j where s: "surface_of_boundary b = Inr s"
    and rest: "i < length b \<and> j < length b
      \<and> (\<forall>k < i. b ! k \<noteq> b ! i)
      \<and> (\<forall>k < j. (drop i b @ take i b) ! k \<noteq> (drop i b @ take i b) ! j)
      \<and> s = take (Suc j) (drop i b @ take i b)
      \<and> hd s = b ! i \<and> last s = (drop i b @ take i b) ! j
      \<and> s \<noteq> [] \<and> set s \<subseteq> set b
      \<and> fst (hd s) = Min (fst ` set b) \<and> (\<forall>p \<in> set b. fst p = fst (hd s) \<longrightarrow> snd p \<le> snd (hd s))
      \<and> fst (last s) = Max (fst ` set b) \<and> (\<forall>p \<in> set b. fst p = fst (last s) \<longrightarrow> snd p \<le> snd (last s))"
    by blast
  define d where "d = ds\<lparr>points := concat (map Points (layers ds)), boundary := b, surface := s\<rparr>"
  have run: "post_process ub ds = (Inr (), d)"
    using s by (simp add: post_process_def Let_def b_def d_def)
  have fb: "b = boundary d" and fs: "s = surface d" by (simp_all add: d_def)
  have bd: "boundary d = map round_point (ub (layers ds))" using fb b_def by simp
  note rest' = rest [unfolded fs, unfolded fb]
  show ?thesis using run bd rest' by blast
qed

lemma round_point_overhang: "map round_point overhang_polygon = overhang_polygon"
  by code_simp

lemma surface_overhang:
  "surface_of_boundary overhang_polygon = Inr [(0, 5), (5, 5), (4, 3), (10, 3)]"
  by code_simp

lemma post_process_overhang:
  "post_process single_layer_union ds_overhang
     = (Inr (), ds_overhang\<lparr>surface := [(0, 5), (5, 5), (4, 3), (10, 3)]\<rparr>)"
proof -
  have "single_layer_union (layers ds_overhang) = overhang_polygon"
    by (simp add: single_layer_union_def ds_overhang_def cross_section_def)
  then show ?thesis
    by (simp add: post_process_def round_point_overhang surface_overhang ds_overhang_def cross_section_def)
qed

theorem post_process_surface_ends_witness:
  "single_layer_union (layers ds_overhang) \<noteq> []
   \<and> surface (snd (post_process single_layer_union ds_overhang))
       = take 4 (boundary (snd (post_process single_layer_union ds_overhang)))
   \<and> hd (surface (snd (post_process single_layer_union ds_overhang))) = (0, 5)
   \<and> last (surface (snd (post_process single_layer_union ds_overhang))) = (10, 3)
   \<and> fst (hd (surface (snd (post_process single_layer_union ds_overhang))))
       = Min (fst ` set (boundary (snd (post_process single_layer_union ds_overhang))))"
proof -
  have ne: "single_layer_union (layers ds_overhang) \<noteq> []"
    by (simp add: single_layer_union_def ds_overhang_def cross_section_def overhang_polygon_def)
  from ne post_process_surface_ends [of single_layer_union ds_overhang]
  have "fst (hd (surface (snd (post_process single_layer_union ds_overhang))))
       = Min (fst ` set (boundary (snd (post_process single_layer_union ds_overhang))))"
    by auto
  moreover have "boundary (ds_overhang\<lparr>surface := [(0, 5), (5, 5), (4, 3), (10, 3)]\<rparr>) = overhang_polygon"
    by (simp add: ds_overhang_def cross_section_def)
  ultimately show ?thesis using ne by (simp add: post_process_overhang overhang_polygon_def)
qed

text \<open>
  The claim as stated fails on the overhanging polygon: its surface runs from x = 5 back to
  x = 4.
\<close>

theorem surface_not_monotone_counterexample:
  "post_process single_layer_union ds_overhang
     = (Inr (), ds_overhang\<lparr>surface := [(0, 5), (5, 5), (4, 3), (10, 3)]\<rparr>)
   \<and> \<not> sorted (map fst (surface (snd (post_process single_layer_union ds_overhang))))"
  by (simp add: post_process_overhang)

text \<open>
  C3. The four landmark kinds of the check are not among the singular ones, so
  \<^verbatim>\<open>get_characteristic_point\<close> returns a list or \<^verbatim>\<open>None\<close> and the attribute \<^verbatim>\<open>is_valid\<close> of the first
  test raises AttributeError: the check neither raises the input error nor passes, whatever the
  registry holds.
\<close>

theorem pl_check_input_AttributeError:
  "pl_check_input ds = Inl AttributeError"
proof -
  have "EMBANKEMENT_TOP_WATER_SIDE \<notin> set singular_types"
    by (simp add: singular_types_def)
  then have "require_valid ds EMBANKEMENT_TOP_WATER_SIDE m = Inl AttributeError" for m
    by (simp add: require_valid_def multi_valued_is_valid ebind_def)
  then show ?thesis
    by (simp add: pl_check_input_def ebind_def)
qed

text \<open>
  C4. The clay strategy never returns its six points: where the river level meets the
  surface, reading \<^verbatim>\<open>x\<close> of the embankment-top-landside landmark raises AttributeError, and the
  height of E subtracts a float from the list that \<^verbatim>\<open>z_at\<close> returns.
\<close>

theorem clay_layout_never_returns:
  "execute_clay_layout alg ds =
     (case river_intersection alg ds of Inl e \<Rightarrow> Inl e | Inr A \<Rightarrow> Inl AttributeError)
   \<and> list_minus_float (z_at ds v) (E_offset alg) = Inl TypeError"
proof -
  have "EMBANKEMENT_TOP_LAND_SIDE \<notin> set singular_types"
    by (simp add: singular_types_def)
  then have "attr_x (get_characteristic_point ds EMBANKEMENT_TOP_LAND_SIDE) = Inl AttributeError"
    by (rule multi_valued_x)
  then show ?thesis
    by (simp add: execute_clay_layout_def ebind_def Let_def list_minus_float_def
             split: sum.splits prod.splits)
qed

text \<open>
  C5. The scenario of the spec: river level 4, offsets 1 and 1.5, a surface that meets z = 4
  only at x = 10. Point A is found at (10, 4), and the strategy then raises AttributeError.
\<close>

theorem clay_scenario_AttributeError:
  "river_intersection alg_clay ds_slope = Inr (10, 4)
   \<and> execute_clay_layout alg_clay ds_slope = Inl AttributeError"
  by code_simp

text \<open>
  C8, as the code has it. The polygon of a part of the berm and the polygon of the ditch fill
  end with the surface points whose x lies between the two bounding x-values, these values
  included, in reverse order.
\<close>

theorem ground_closure_inclusive:
  "berm_layer_points ds pB p1 p2 =
     (if fst p1 < fst pB \<and> fst pB < fst p2 then [p1, pB, p2] else [p1, p2])
     @ rev [p \<leftarrow> surface ds. fst p1 \<le> fst p \<and> fst p \<le> fst p2]
   \<and> (\<forall>pts. ditch_fill_points cl sds alg = Inr pts \<longrightarrow>
        (\<exists>fp1 fp2. cl sds (ditch_embankement_side alg) = Inr fp1
           \<and> cl sds (ditch_land_side alg) = Inr fp2
           \<and> pts = [fp1, fp2] @ rev [p \<leftarrow> surface sds. fst fp1 \<le> fst p \<and> fst p \<le> fst fp2]))"
  by (auto simp: berm_layer_points_def ditch_fill_points_def surface_points_between_def ebind_def
           split: sum.splits)

lemma ditch_fill_example:
  "ditch_fill_points nearest_surface_point ds_ditch alg_ditch
     = Inr [(0, 0), (2, 0), (2, 0), (1, -1), (0, 0)]"
  by code_simp

theorem ground_closure_inclusive_witness:
  "nearest_surface_point ds_ditch (ditch_embankement_side alg_ditch) = Inr (0, 0)
   \<and> nearest_surface_point ds_ditch (ditch_land_side alg_ditch) = Inr (2, 0)
   \<and> [p \<leftarrow> surface ds_ditch. (0::real) \<le> fst p \<and> fst p \<le> 2] = [(0, 0), (1, -1), (2, 0)]"
proof -
  from ground_closure_inclusive [of ds_ditch "(0, 0)" "(0, 0)" "(2, 0)" nearest_surface_point ds_ditch alg_ditch]
  obtain fp1 fp2 where fp:
    "nearest_surface_point ds_ditch (ditch_embankement_side alg_ditch) = Inr fp1"
    "nearest_surface_point ds_ditch (ditch_land_side alg_ditch) = Inr fp2"
    "[(0, 0), (2, 0), (2, 0), (1, -1), (0, 0)]
       = [fp1, fp2] @ rev [p \<leftarrow> surface ds_ditch. fst fp1 \<le> fst p \<and> fst p \<le> fst fp2]"
    using ditch_fill_example by auto
  let ?F = "[p \<leftarrow> surface ds_ditch. fst fp1 \<le> fst p \<and> fst p \<le> fst fp2]"
  from fp(3) have eq: "fp1 = (0, 0)" "fp2 = (2, 0)" by simp_all
  have "drop 2 [(0, 0), (2, 0), (2, 0), (1, -1), (0, 0)] = drop 2 ([fp1, fp2] @ rev ?F)"
    using fp(3) by (rule arg_cong)
  then have "rev ?F = [(2, 0), (1, -1), (0, 0)]" by simp
  then have "rev (rev ?F) = rev [(2, 0), (1, -1), (0, 0)]" by (rule arg_cong)
  then have "?F = [(0, 0), (1, -1), (2, 0)]" by simp
  then show ?thesis using fp(1,2) eq(1,2) by simp
qed

text \<open>
  The claim as stated fails on the ditch: the surface points at the bounding x-values 0 and 2
  are part of the closure, so the two polygons repeat them.
\<close>

theorem ground_closure_counterexample:
  "ditch_fill_points nearest_surface_point ds_ditch alg_ditch
     = Inr [(0, 0), (2, 0), (2, 0), (1, -1), (0, 0)]
   \<and> berm_layer_points ds_ditch (5, 5) (0, 0) (2, 0) = [(0, 0), (2, 0), (2, 0), (1, -1), (0, 0)]
   \<and> [p \<leftarrow> surface ds_ditch. (0::real) < fst p \<and> fst p < 2] = [(1, -1)]"
  by code_simp

text \<open>
  C9, as the code has it. For a singular kind the result is the first entry of that kind, or
  \<^verbatim>\<open>None\<close> when there is none; for every other kind it is the list of all entries of that kind in
  registry order when there is at least one, and \<^verbatim>\<open>None\<close>, not the empty list, when there is
  none.
\<close>

theorem get_characteristic_point_result:
  "(pt \<in> set singular_types \<longrightarrow>
      (get_characteristic_point ds pt = RNone \<longleftrightarrow> (\<forall>cp \<in> set (characteristic_points ds). point_type cp \<noteq> pt))
    \<and> (\<forall>cp. find (\<lambda>cp. point_type cp = pt) (characteristic_points ds) = Some cp
           \<longrightarrow> get_characteristic_point ds pt = RPoint cp))
 \<and> (pt \<notin> set singular_types \<longrightarrow>
      (get_characteristic_point ds pt = RNone \<longleftrightarrow> (\<forall>cp \<in> set (characteristic_points ds). point_type cp \<noteq> pt))
    \<and> ((\<exists>cp \<in> set (characteristic_points ds). point_type cp = pt)
           \<longrightarrow> get_characteristic_point ds pt = RList [cp \<leftarrow> characteristic_points ds. point_type cp = pt]))"
  by (auto simp: get_characteristic_point_def Let_def find_None_iff filter_empty_conv
           dest: find_Some_in split: option.splits)

theorem get_characteristic_point_result_witness:
  "EMBANKEMENT_TOP_LAND_SIDE \<notin> set singular_types
   \<and> get_characteristic_point ds_slope EMBANKEMENT_TOP_LAND_SIDE
       = RList [\<lparr>cp_x = 12, point_type = EMBANKEMENT_TOP_LAND_SIDE, is_valid = True\<rparr>]
   \<and> TOE_LEFT \<in> set singular_types
   \<and> get_characteristic_point ds_slope TOE_LEFT = RNone"
proof -
  have a: "EMBANKEMENT_TOP_LAND_SIDE \<notin> set singular_types" "TOE_LEFT \<in> set singular_types"
    by (simp_all add: singular_types_def)
  have b: "\<exists>cp \<in> set (characteristic_points ds_slope). point_type cp = EMBANKEMENT_TOP_LAND_SIDE"
    "\<forall>cp \<in> set (characteristic_points ds_slope). point_type cp \<noteq> TOE_LEFT"
    by (simp_all add: ds_slope_def cross_section_def)
  have c: "[cp \<leftarrow> characteristic_points ds_slope. point_type cp = EMBANKEMENT_TOP_LAND_SIDE]
      = [\<lparr>cp_x = 12, point_type = EMBANKEMENT_TOP_LAND_SIDE, is_valid = True\<rparr>]"
    by (simp add: ds_slope_def cross_section_def)
  show ?thesis
    using a b c get_characteristic_point_result [of EMBANKEMENT_TOP_LAND_SIDE ds_slope]
      get_characteristic_point_result [of TOE_LEFT ds_slope]
    by simp
qed

text \<open>
  The claim as stated fails for a kind that is not singular and has no entry: the result is
  \<^verbatim>\<open>None\<close>, not the empty list of matching entries.
\<close>

theorem get_characteristic_point_counterexample:
  "[cp \<leftarrow> characteristic_points ds_slope. point_type cp = SHOULDER_BASE_LAND_SIDE] = []
   \<and> get_characteristic_point ds_slope SHOULDER_BASE_LAND_SIDE = RNone
   \<and> get_characteristic_point ds_slope SHOULDER_BASE_LAND_SIDE \<noteq> RList []"
  by (simp add: get_characteristic_point_def singular_types_def ds_slope_def cross_section_def)

text \<open>
  C10, as the code has it. With an empty collection of waternet creator settings the check
  raises IndexError, also when neither a berm nor a ditch fill is asked for; the one exception
  is a berm (width and height positive) with an unknown soil code, which is reported as an
  input error before the collection is read.
\<close>

theorem berm_check_input_empty_settings:
  assumes "waternetcreatorsettings ds = []"
  shows "berm_check_input ds alg =
     (if 0 < width alg \<and> 0 < height alg \<and> \<not> has_soilcode ds (soilcode alg)
      then Inl (AlgorithmInputCheckError
             [Txt ''AlgorithmBermWSBD got an invalid soilcode '', Str (Some (soilcode alg))])
      else Inl IndexError)"
  using assms by (simp add: berm_check_input_def ebind_def py_first_def)

theorem berm_check_input_empty_settings_witness:
  "waternetcreatorsettings ds_slope = []
   \<and> berm_check_input ds_slope (berm_alg '''' 16 10 1 0 0) = Inl IndexError
   \<and> berm_check_input ds_slope (berm_alg ''clay'' 16 10 1 6 2) = Inl IndexError"
proof -
  have e: "waternetcreatorsettings ds_slope = []"
    by (simp add: ds_slope_def cross_section_def)
  have "has_soilcode ds_slope ''clay''"
    by (simp add: has_soilcode_def ds_slope_def cross_section_def)
  then show ?thesis
    using e berm_check_input_empty_settings [OF e, of "berm_alg '''' 16 10 1 0 0"]
      berm_check_input_empty_settings [OF e, of "berm_alg ''clay'' 16 10 1 6 2"]
    by (simp add: berm_alg_def)
qed

text \<open>
  The claim as stated fails for a berm with an unknown soil code: the settings are empty and
  the check raises the input error.
\<close>

theorem berm_check_input_counterexample:
  "waternetcreatorsettings ds_slope = []
   \<and> berm_check_input ds_slope (berm_alg ''Invalid soiltype'' 16 10 1 6 2)
       = Inl (AlgorithmInputCheckError
           [Txt ''AlgorithmBermWSBD got an invalid soilcode '', Str (Some ''Invalid soiltype'')])"
  by code_simp

lemma berm_fill_ditch_frame:
  "length (snd (berm_fill_ditch geom cl alg c h)) = length h
   \<and> take c (snd (berm_fill_ditch geom cl alg c h)) = take c h"
  by (simp add: berm_fill_ditch_def heap_call_frame split: sum.splits)

lemma berm_build_frame:
  "length (snd (berm_build geom ppi alg c h)) = length h
   \<and> take c (snd (berm_build geom ppi alg c h)) = take c h
   \<and> (\<forall>r. fst (berm_build geom ppi alg c h) = Inr r \<longrightarrow> r = c)"
proof (cases "width alg \<le> 0 \<or> height alg \<le> 0")
  case True
  then show ?thesis by (simp add: berm_build_def)
next
  case size: False
  show ?thesis
  proof (cases "ebind (berm_pA ppi (h ! c) alg) (\<lambda>pA. ebind (berm_pB alg pA) (\<lambda>pB.
                  ebind (berm_pC ppi (h ! c) alg pB) (\<lambda>pC. Inr (pA, pB, pC))))")
    case (Inl e)
    then show ?thesis using size by (simp add: berm_build_def)
  next
    case (Inr t)
    obtain pA pB pC where t: "t = (pA, pB, pC)" by (cases t) auto
    let ?ints = "berm_intersections ppi (h ! c) pA pB pC"
    obtain r h' where run: "berm_add_layers geom alg c pB ?ints h = (r, h')"
      by (cases "berm_add_layers geom alg c pB ?ints h")
    have fr: "length h' = length h" "take c h' = take c h"
      using berm_add_layers_frame [of geom alg c pB ?ints h] run by simp_all
    show ?thesis
      using size Inr t run fr by (cases r) (simp_all add: berm_build_def Let_def)
  qed
qed

lemma berm_build_odd_run:
  assumes "0 < width alg" and "0 < height alg"
    and "berm_pA ppi (h ! c) alg = Inr pA" and "berm_pB alg pA = Inr pB"
    and "berm_pC ppi (h ! c) alg pB = Inr pC"
    and "odd (length (berm_intersections ppi (h ! c) pA pB pC))"
  shows "berm_build geom ppi alg c h
     = (Inl (ValueError [Txt ''The berm continues outside of the right limit of the geometry, cannot create berm'']), h)"
proof -
  have "ebind (berm_pA ppi (h ! c) alg) (\<lambda>pA. ebind (berm_pB alg pA) (\<lambda>pB.
               ebind (berm_pC ppi (h ! c) alg pB) (\<lambda>pC. Inr (pA, pB, pC)))) = Inr (pA, pB, pC)"
    using assms(3-5) by (simp add: ebind_def)
  then show ?thesis
    using assms(1,2,6) by (simp add: berm_build_def Let_def odd_iff_mod_2_eq_one)
qed

lemma berm_build_even_run:
  assumes "0 < width alg" and "0 < height alg" and "c < length h"
    and "berm_pA ppi (h ! c) alg = Inr pA" and "berm_pB alg pA = Inr pB"
    and "berm_pC ppi (h ! c) alg pB = Inr pC"
    and "even (length (berm_intersections ppi (h ! c) pA pB pC))"
  shows "\<exists>h' new. berm_build geom ppi alg c h = (Inr c, h')
               \<and> layers (h' ! c) = layers (h ! c) @ new
               \<and> length new = length (berm_intersections ppi (h ! c) pA pB pC) div 2
               \<and> (\<forall>i < length new. SoilCode (new ! i) = Some (soilcode alg)
                     \<and> hd (Points (new ! i)) = berm_intersections ppi (h ! c) pA pB pC ! (2 * i)
                     \<and> berm_intersections ppi (h ! c) pA pB pC ! (2 * i + 1) \<in> set (Points (new ! i)))"
proof -
  let ?ints = "berm_intersections ppi (h ! c) pA pB pC"
  have pts: "ebind (berm_pA ppi (h ! c) alg) (\<lambda>pA. ebind (berm_pB alg pA) (\<lambda>pB.
               ebind (berm_pC ppi (h ! c) alg pB) (\<lambda>pC. Inr (pA, pB, pC)))) = Inr (pA, pB, pC)"
    using assms(4-6) by (simp add: ebind_def)
  obtain h' new where run: "berm_add_layers geom alg c pB ?ints h = (Inr (), h')"
    and rest: "layers (h' ! c) = layers (h ! c) @ new" "length new = length ?ints div 2"
      "\<forall>i < length new. SoilCode (new ! i) = Some (soilcode alg)
          \<and> hd (Points (new ! i)) = ?ints ! (2 * i) \<and> ?ints ! (2 * i + 1) \<in> set (Points (new ! i))"
    using berm_add_layers_even [OF assms(7) assms(3), of geom alg pB] by blast
  have "berm_build geom ppi alg c h = (Inr c, h')"
    using assms(1,2,7) pts run by (simp add: berm_build_def Let_def even_iff_mod_2_eq_zero)
  then show ?thesis using rest by blast
qed

lemma pA_levee:
  "berm_pA polyline_polyline_intersections ds_levee (berm_alg ''clay'' 20 10 1 6 2) = Inr (160 / 9, 20 / 9)"
  by code_simp

lemma pB_levee: "berm_pB (berm_alg ''clay'' 20 10 1 6 2) (160 / 9, 20 / 9) = Inr (214 / 9, 73 / 45)"
  by code_simp

lemma pC_levee:
  "berm_pC polyline_polyline_intersections ds_levee (berm_alg ''clay'' 20 10 1 6 2) (214 / 9, 73 / 45)
     = Inr (127 / 5, 0)"
  by code_simp

lemma ints_levee:
  "berm_intersections polyline_polyline_intersections ds_levee (160 / 9, 20 / 9) (214 / 9, 73 / 45) (127 / 5, 0)
     = [(8889 / 500, 1111 / 500), (127 / 5, 0)]"
  by code_simp

lemma pA_levee9:
  "berm_pA polyline_polyline_intersections ds_levee (berm_alg ''clay'' 20 10 1 6 9) = Inr (10, 10)"
  by code_simp

lemma pB_levee9: "berm_pB (berm_alg ''clay'' 20 10 1 6 9) (10, 10) = Inr (16, 47 / 5)"
  by code_simp

lemma pC_levee9:
  "berm_pC polyline_polyline_intersections ds_levee (berm_alg ''clay'' 20 10 1 6 9) (16, 47 / 5)
     = Inr (127 / 5, 0)"
  by code_simp

lemma ints_levee9:
  "berm_intersections polyline_polyline_intersections ds_levee (10, 10) (16, 47 / 5) (127 / 5, 0)
     = [(10, 10), (10, 10), (127 / 5, 0)]"
  by code_simp

lemma pA_levee_blind:
  "berm_pA vertex_blind_intersections ds_levee (berm_alg ''clay'' 20 10 1 6 2) = Inr (160 / 9, 20 / 9)"
  by code_simp

lemma pC_levee_blind:
  "berm_pC vertex_blind_intersections ds_levee (berm_alg ''clay'' 20 10 1 6 2) (214 / 9, 73 / 45)
     = Inr (127 / 5, 0)"
  by code_simp

lemma ints_levee_blind:
  "berm_intersections vertex_blind_intersections ds_levee (160 / 9, 20 / 9) (214 / 9, 73 / 45) (127 / 5, 0)
     = [(160 / 9, 20 / 9), (127 / 5, 0)]"
  by code_simp

lemma berm_alg_size: "0 < width (berm_alg code toe st sb 6 ht)" "0 < ht \<Longrightarrow> 0 < height (berm_alg code toe st sb w ht)"
  "\<not> fill_ditch (berm_alg code toe st sb w ht)" "self_ds (berm_alg code toe st sb w ht) = 0"
  by (simp_all add: berm_alg_def)

lemma berm_run_levee:
  "fst (berm_execute geom polyline_polyline_intersections cl (berm_alg ''clay'' 20 10 1 6 2) [ds_levee]) = Inr 1"
proof -
  let ?alg = "berm_alg ''clay'' 20 10 1 6 2"
  let ?h = "[ds_levee, ds_levee]"
  let ?ints = "berm_intersections polyline_polyline_intersections (?h ! 1)
                 (160 / 9, 20 / 9) (214 / 9, 73 / 45) (127 / 5, 0)"
  have "\<exists>h' new. berm_build geom polyline_polyline_intersections ?alg 1 ?h = (Inr 1, h')
          \<and> layers (h' ! 1) = layers (?h ! 1) @ new
          \<and> length new = length ?ints div 2
          \<and> (\<forall>i < length new. SoilCode (new ! i) = Some (soilcode ?alg)
                \<and> hd (Points (new ! i)) = ?ints ! (2 * i)
                \<and> ?ints ! (2 * i + 1) \<in> set (Points (new ! i)))"
    by (rule berm_build_even_run) (simp_all add: berm_alg_size pA_levee pB_levee pC_levee ints_levee)
  then obtain h' where "berm_build geom polyline_polyline_intersections ?alg 1 ?h = (Inr 1, h')" by blast
  then show ?thesis
    by (simp add: berm_execute_def deepcopy_def berm_fill_ditch_def berm_alg_size)
qed

lemma berm_run_levee_odd:
  "fst (berm_execute geom polyline_polyline_intersections cl (berm_alg ''clay'' 20 10 1 6 9) [ds_levee])
     = Inl (ValueError [Txt ''The berm continues outside of the right limit of the geometry, cannot create berm''])"
proof -
  let ?alg = "berm_alg ''clay'' 20 10 1 6 9"
  let ?h = "[ds_levee, ds_levee]"
  have "berm_build geom polyline_polyline_intersections ?alg 1 ?h
      = (Inl (ValueError [Txt ''The berm continues outside of the right limit of the geometry, cannot create berm'']), ?h)"
    by (rule berm_build_odd_run [where pA = "(10, 10)" and pB = "(16, 47 / 5)" and pC = "(127 / 5, 0)"])
       (simp_all add: berm_alg_size pA_levee9 pB_levee9 pC_levee9 ints_levee9)
  then show ?thesis
    by (simp add: berm_execute_def deepcopy_def berm_fill_ditch_def berm_alg_size)
qed

lemma pl_run_slope: "fst (pl_execute alg_clay [ds_slope]) = Inl AttributeError"
  by code_simp

text \<open>
  C2. Both \<^verbatim>\<open>_execute\<close> methods leave every object that exists before the call as it is,
  the caller's cross-section among them, whether they return or raise; a result that is returned
  is a new object.
\<close>

theorem execute_leaves_original:
  "take (length h) (snd (berm_execute geom ppi cl alg h)) = h
   \<and> take (length h) (snd (pl_execute palg h)) = h
   \<and> (\<forall>r. fst (berm_execute geom ppi cl alg h) = Inr r \<longrightarrow> r = length h)
   \<and> (\<forall>r. fst (pl_execute palg h) = Inr r \<longrightarrow> r = length h)"
proof -
  let ?c = "length h"
  let ?h1 = "h @ [h ! self_ds alg]"
  obtain r2 h2 where fd: "berm_fill_ditch geom cl alg ?c ?h1 = (r2, h2)"
    by (cases "berm_fill_ditch geom cl alg ?c ?h1")
  have f2: "length h2 = length ?h1" "take ?c h2 = take ?c ?h1"
    using berm_fill_ditch_frame [of geom cl alg ?c ?h1] fd by simp_all
  have f3: "take ?c (snd (berm_build geom ppi alg ?c h2)) = take ?c h2"
    "\<forall>r. fst (berm_build geom ppi alg ?c h2) = Inr r \<longrightarrow> r = ?c"
    using berm_build_frame [of geom ppi alg ?c h2] by simp_all
  have berm: "take ?c (snd (berm_execute geom ppi cl alg h)) = h
      \<and> (\<forall>r. fst (berm_execute geom ppi cl alg h) = Inr r \<longrightarrow> r = ?c)"
  proof (cases r2)
    case (Inl e)
    then show ?thesis using fd f2 by (simp add: berm_execute_def deepcopy_def)
  next
    case (Inr u)
    then show ?thesis using fd f2 f3 by (simp add: berm_execute_def deepcopy_def)
  qed
  have pl: "take ?c (snd (pl_execute palg h)) = h
      \<and> (\<forall>r. fst (pl_execute palg h) = Inr r \<longrightarrow> r = ?c)"
    by (simp add: pl_execute_def deepcopy_def split: sum.splits)
  show ?thesis using berm pl by simp
qed

theorem execute_leaves_original_witness:
  "fst (berm_execute (recomputed_geometry levee_union) polyline_polyline_intersections nearest_surface_point
          (berm_alg ''clay'' 20 10 1 6 2) [ds_levee]) = Inr 1
   \<and> take 1 (snd (berm_execute (recomputed_geometry levee_union) polyline_polyline_intersections
                     nearest_surface_point (berm_alg ''clay'' 20 10 1 6 2) [ds_levee]))
       = [ds_levee]
   \<and> fst (berm_execute (recomputed_geometry levee_union) polyline_polyline_intersections nearest_surface_point
            (berm_alg ''clay'' 20 10 1 6 9) [ds_levee])
       = Inl (ValueError [Txt ''The berm continues outside of the right limit of the geometry, cannot create berm''])
   \<and> take 1 (snd (berm_execute (recomputed_geometry levee_union) polyline_polyline_intersections
                     nearest_surface_point (berm_alg ''clay'' 20 10 1 6 9) [ds_levee]))
       = [ds_levee]
   \<and> fst (pl_execute alg_clay [ds_slope]) = Inl AttributeError
   \<and> take 1 (snd (pl_execute alg_clay [ds_slope])) = [ds_slope]"
proof -
  note t1 = execute_leaves_original [of "[ds_levee]" "recomputed_geometry levee_union"
          polyline_polyline_intersections nearest_surface_point "berm_alg ''clay'' 20 10 1 6 2" alg_clay]
  note t2 = execute_leaves_original [of "[ds_levee]" "recomputed_geometry levee_union"
          polyline_polyline_intersections nearest_surface_point "berm_alg ''clay'' 20 10 1 6 9" alg_clay]
  note t3 = execute_leaves_original [of "[ds_slope]" "recomputed_geometry levee_union"
          polyline_polyline_intersections nearest_surface_point "berm_alg ''clay'' 20 10 1 6 2" alg_clay]
  have l: "length [d] = 1" for d :: DStability by simp
  have a: "take 1 (snd (berm_execute (recomputed_geometry levee_union) polyline_polyline_intersections
                     nearest_surface_point (berm_alg ''clay'' 20 10 1 6 2) [ds_levee]))
       = [ds_levee]"
    using conjunct1 [OF t1] unfolding l .
  have b: "take 1 (snd (berm_execute (recomputed_geometry levee_union) polyline_polyline_intersections
                     nearest_surface_point (berm_alg ''clay'' 20 10 1 6 9) [ds_levee]))
       = [ds_levee]"
    using conjunct1 [OF t2] unfolding l .
  have c: "take 1 (snd (pl_execute alg_clay [ds_slope])) = [ds_slope]"
    using conjunct1 [OF conjunct2 [OF t3]] unfolding l .
  show ?thesis using a b c berm_run_levee berm_run_levee_odd pl_run_slope by (intro conjI)
qed

text \<open>
  C6, as the code has it. Of the intersections of the top line with the surface those with x
  strictly left of the toe are kept. If none is left the run raises ValueError with the message
  about no intersections on the left side; otherwise \<open>pA\<close> is the last kept intersection in the
  order in which the helper reports them, which is the rightmost one whenever the helper's list
  is non-decreasing in x; the helper of the spec, which follows the surface, reports such a list
  whenever the x-coordinates of the surface are non-decreasing.
\<close>

theorem berm_pA_last_left_intersection:
  assumes "berm_top_line ds alg = Inr (p1, p3, p4)"
  shows "set (left_intersections ppi ds p1 p3 p4) = {p \<in> set (ppi [p3, p4] (surface ds)). fst p < fst p1}
       \<and> (left_intersections ppi ds p1 p3 p4 = [] \<longrightarrow>
            berm_pA ppi ds alg
              = Inl (ValueError [Txt ''No intersections on the left side of x_toe, can not create a berm'']))
       \<and> (left_intersections ppi ds p1 p3 p4 \<noteq> [] \<longrightarrow>
            berm_pA ppi ds alg = Inr (last (left_intersections ppi ds p1 p3 p4))
          \<and> (sorted (map fst (ppi [p3, p4] (surface ds))) \<longrightarrow>
               (\<forall>q \<in> set (left_intersections ppi ds p1 p3 p4).
                  fst q \<le> fst (last (left_intersections ppi ds p1 p3 p4)))))
       \<and> (sorted (map fst (surface ds)) \<longrightarrow>
            sorted (map fst (polyline_polyline_intersections [p3, p4] (surface ds))))"
proof -
  let ?li = "left_intersections ppi ds p1 p3 p4"
  have res: "berm_pA ppi ds alg = (if ?li = [] then Inl (ValueError [Txt ''No intersections on the left side of x_toe, can not create a berm'']) else Inr (last ?li))"
    using assms by (simp add: berm_pA_def ebind_def)
  have "fst q \<le> fst (last ?li)" if "sorted (map fst (ppi [p3, p4] (surface ds)))" "q \<in> set ?li" "?li \<noteq> []" for q
  proof -
    have "sorted (map fst ?li)"
      unfolding left_intersections_def using that(1) by (simp add: sorted_filter)
    moreover have "fst q \<in> set (map fst ?li)" using that(2) by simp
    ultimately have "fst q \<le> last (map fst ?li)" by (rule sorted_le_last)
    then show ?thesis using that(3) by (simp add: last_map)
  qed
  moreover have "set ?li = {p \<in> set (ppi [p3, p4] (surface ds)). fst p < fst p1}"
    by (simp add: left_intersections_def)
  ultimately show ?thesis using res top_line_intersections_sorted [of "surface ds" p3 p4] by auto
qed

lemma top_line_ridge:
  "berm_top_line ds_ridge (berm_alg ''clay'' 20 10 1 6 2) = Inr ((20, 0), (0, 4), (40, 0))"
  by code_simp

lemma left_ridge:
  "left_intersections polyline_polyline_intersections ds_ridge (20, 0) (0, 4) (40, 0)
     = [(80 / 7, 20 / 7), (400 / 31, 84 / 31), (160 / 9, 20 / 9)]"
  by code_simp

lemma sorted_ridge: "sorted (map fst (surface ds_ridge))"
  by (simp add: ds_ridge_def cross_section_def ridge_polygon_def)

lemma top_line_flat:
  "berm_top_line ds_flat (berm_alg ''clay'' 20 10 1 6 2) = Inr ((20, 0), (0, 4), (40, 0))"
  by code_simp

lemma left_flat: "left_intersections polyline_polyline_intersections ds_flat (20, 0) (0, 4) (40, 0) = []"
  by code_simp

theorem berm_pA_last_left_intersection_witness:
  "berm_top_line ds_ridge (berm_alg ''clay'' 20 10 1 6 2) = Inr ((20, 0), (0, 4), (40, 0))
   \<and> sorted (map fst (surface ds_ridge))
   \<and> left_intersections polyline_polyline_intersections ds_ridge (20, 0) (0, 4) (40, 0)
       = [(80 / 7, 20 / 7), (400 / 31, 84 / 31), (160 / 9, 20 / 9)]
   \<and> berm_pA polyline_polyline_intersections ds_ridge (berm_alg ''clay'' 20 10 1 6 2) = Inr (160 / 9, 20 / 9)
   \<and> fst (80 / 7 :: real, 20 / 7 :: real) \<le> 160 / 9
   \<and> fst (400 / 31 :: real, 84 / 31 :: real) \<le> 160 / 9
   \<and> berm_top_line ds_flat (berm_alg ''clay'' 20 10 1 6 2) = Inr ((20, 0), (0, 4), (40, 0))
   \<and> berm_pA polyline_polyline_intersections ds_flat (berm_alg ''clay'' 20 10 1 6 2)
       = Inl (ValueError [Txt ''No intersections on the left side of x_toe, can not create a berm''])"
proof -
  note r = berm_pA_last_left_intersection [OF top_line_ridge, of polyline_polyline_intersections]
  note f = berm_pA_last_left_intersection [OF top_line_flat, of polyline_polyline_intersections]
  have ne: "left_intersections polyline_polyline_intersections ds_ridge (20, 0) (0, 4) (40, 0) \<noteq> []"
    by (simp add: left_ridge)
  have srt: "sorted (map fst (polyline_polyline_intersections [(0, 4), (40, 0)] (surface ds_ridge)))"
    using r sorted_ridge by blast
  have pA: "berm_pA polyline_polyline_intersections ds_ridge (berm_alg ''clay'' 20 10 1 6 2)
      = Inr (last (left_intersections polyline_polyline_intersections ds_ridge (20, 0) (0, 4) (40, 0)))"
    and right: "\<forall>q \<in> set (left_intersections polyline_polyline_intersections ds_ridge (20, 0) (0, 4) (40, 0)).
       fst q \<le> fst (last (left_intersections polyline_polyline_intersections ds_ridge (20, 0) (0, 4) (40, 0)))"
    using r ne srt by blast+
  have last_eq: "last (left_intersections polyline_polyline_intersections ds_ridge (20, 0) (0, 4) (40, 0))
      = (160 / 9, 20 / 9)"
    by (simp add: left_ridge)
  have flat: "berm_pA polyline_polyline_intersections ds_flat (berm_alg ''clay'' 20 10 1 6 2)
       = Inl (ValueError [Txt ''No intersections on the left side of x_toe, can not create a berm''])"
    using f left_flat by blast
  have in1: "(80 / 7, 20 / 7) \<in> set (left_intersections polyline_polyline_intersections ds_ridge (20, 0) (0, 4) (40, 0))"
    and in2: "(400 / 31, 84 / 31) \<in> set (left_intersections polyline_polyline_intersections ds_ridge (20, 0) (0, 4) (40, 0))"
    by (simp_all add: left_ridge)
  have le1: "fst (80 / 7 :: real, 20 / 7 :: real) \<le> 160 / 9"
    using right in1 unfolding last_eq by fastforce
  have le2: "fst (400 / 31 :: real, 84 / 31 :: real) \<le> 160 / 9"
    using right in2 unfolding last_eq by fastforce
  show ?thesis
    using top_line_ridge sorted_ridge left_ridge pA le1 le2 flat top_line_flat unfolding last_eq
    by (intro conjI)
qed

text \<open>
  The claim as stated fails twice. On flat land with the berm of the spec's scenario the error
  is a ValueError, not the execution error of the algorithms. On the levee with the cave the
  helper of the spec reports the kept intersections at x = 10, 7 and 5, in the order of the
  surface, and \<open>pA\<close> is the last, at x = 5, not the rightmost.
\<close>

lemma surface_cave: "surface_of_boundary cave_polygon = Inr (surface ds_cave)"
  by code_simp

lemma top_line_cave:
  "berm_top_line ds_cave (berm_alg ''clay'' 16 4 1 6 3) = Inr ((16, 1), (0, 8), (20, 3))"
  by code_simp

lemma left_cave:
  "left_intersections polyline_polyline_intersections ds_cave (16, 1) (0, 8) (20, 3)
     = [(10, 11 / 2), (7, 25 / 4), (5, 27 / 4)]"
  by code_simp

theorem berm_pA_counterexample:
  "berm_pA polyline_polyline_intersections ds_flat (berm_alg ''clay'' 20 10 1 6 2)
     = Inl (ValueError [Txt ''No intersections on the left side of x_toe, can not create a berm''])
   \<and> surface_of_boundary cave_polygon = Inr (surface ds_cave)
   \<and> berm_top_line ds_cave (berm_alg ''clay'' 16 4 1 6 3) = Inr ((16, 1), (0, 8), (20, 3))
   \<and> left_intersections polyline_polyline_intersections ds_cave (16, 1) (0, 8) (20, 3)
       = [(10, 11 / 2), (7, 25 / 4), (5, 27 / 4)]
   \<and> berm_pA polyline_polyline_intersections ds_cave (berm_alg ''clay'' 16 4 1 6 3) = Inr (5, 27 / 4)"
  by (simp add: berm_pA_def top_line_flat left_flat top_line_cave left_cave surface_cave ebind_def)

text \<open>
  C7, as the code has it. With \<open>pA\<close>, \<open>pB\<close> and \<open>pC\<close> found, an odd number of rounded
  intersections (with \<open>pA\<close> and \<open>pC\<close> put back where the helper and the rounding lost them) makes
  the run raise ValueError, with the message that the berm continues outside of the right limit,
  and leaves the cross-section without a new layer; an even number makes it return the copy with
  one new layer of the berm's soil for each consecutive pair, which starts at the left point of
  the pair and contains the right one.
\<close>

theorem berm_build_pairs:
  assumes "0 < width alg" and "0 < height alg" and "c < length h"
    and "berm_pA ppi (h ! c) alg = Inr pA" and "berm_pB alg pA = Inr pB"
    and "berm_pC ppi (h ! c) alg pB = Inr pC"
  shows "(odd (length (berm_intersections ppi (h ! c) pA pB pC)) \<longrightarrow>
            berm_build geom ppi alg c h
              = (Inl (ValueError [Txt ''The berm continues outside of the right limit of the geometry, cannot create berm'']), h))
       \<and> (even (length (berm_intersections ppi (h ! c) pA pB pC)) \<longrightarrow>
            (\<exists>h' new. berm_build geom ppi alg c h = (Inr c, h')
               \<and> layers (h' ! c) = layers (h ! c) @ new
               \<and> length new = length (berm_intersections ppi (h ! c) pA pB pC) div 2
               \<and> (\<forall>i < length new. SoilCode (new ! i) = Some (soilcode alg)
                     \<and> hd (Points (new ! i)) = berm_intersections ppi (h ! c) pA pB pC ! (2 * i)
                     \<and> berm_intersections ppi (h ! c) pA pB pC ! (2 * i + 1) \<in> set (Points (new ! i)))))"
  using berm_build_odd_run [OF assms(1,2,4,5,6), of geom] berm_build_even_run [OF assms, of geom]
  by blast

theorem berm_build_pairs_witness:
  "length (berm_intersections polyline_polyline_intersections ds_levee
             (160 / 9, 20 / 9) (214 / 9, 73 / 45) (127 / 5, 0)) = 2
   \<and> fst (berm_build (recomputed_geometry levee_union) polyline_polyline_intersections
            (berm_alg ''clay'' 20 10 1 6 2) 0 [ds_levee]) = Inr 0
   \<and> length (layers (snd (berm_build (recomputed_geometry levee_union) polyline_polyline_intersections
                            (berm_alg ''clay'' 20 10 1 6 2) 0 [ds_levee]) ! 0)) = 2
   \<and> berm_intersections vertex_blind_intersections ds_levee (160 / 9, 20 / 9) (214 / 9, 73 / 45) (127 / 5, 0)
       = [(160 / 9, 20 / 9), (127 / 5, 0)]
   \<and> fst (berm_build (recomputed_geometry levee_union) vertex_blind_intersections
            (berm_alg ''clay'' 20 10 1 6 2) 0 [ds_levee]) = Inr 0
   \<and> length (layers (snd (berm_build (recomputed_geometry levee_union) vertex_blind_intersections
                            (berm_alg ''clay'' 20 10 1 6 2) 0 [ds_levee]) ! 0)) = 2
   \<and> length (berm_intersections polyline_polyline_intersections ds_levee
               (10, 10) (16, 47 / 5) (127 / 5, 0)) = 3
   \<and> berm_build (recomputed_geometry levee_union) polyline_polyline_intersections
       (berm_alg ''clay'' 20 10 1 6 9) 0 [ds_levee]
       = (Inl (ValueError [Txt ''The berm continues outside of the right limit of the geometry, cannot create berm'']),
          [ds_levee])"
proof -
  let ?g = "recomputed_geometry levee_union"
  have w: "0 < width (berm_alg ''clay'' 20 10 1 6 t)" "0 < height (berm_alg ''clay'' 20 10 1 6 2)"
    "0 < height (berm_alg ''clay'' 20 10 1 6 9)" "(0::nat) < length [ds_levee]" for t
    by (simp_all add: berm_alg_size)
  have one: "length (layers ds_levee) = 1"
    by (simp add: ds_levee_def cross_section_def)
  have "\<exists>h' new. berm_build ?g polyline_polyline_intersections (berm_alg ''clay'' 20 10 1 6 2) 0 [ds_levee]
          = (Inr 0, h')
      \<and> layers (h' ! 0) = layers ds_levee @ new \<and> length new = 1"
    using berm_build_pairs [of "berm_alg ''clay'' 20 10 1 6 2" 0 "[ds_levee]" polyline_polyline_intersections
            "(160 / 9, 20 / 9)" "(214 / 9, 73 / 45)" "(127 / 5, 0)" ?g]
      w pA_levee pB_levee pC_levee
    by (simp add: ints_levee) blast
  then obtain h' new where a:
    "berm_build ?g polyline_polyline_intersections (berm_alg ''clay'' 20 10 1 6 2) 0 [ds_levee] = (Inr 0, h')"
    "layers (h' ! 0) = layers ds_levee @ new" "length new = 1"
    by blast
  have "\<exists>h' new. berm_build ?g vertex_blind_intersections (berm_alg ''clay'' 20 10 1 6 2) 0 [ds_levee]
          = (Inr 0, h')
      \<and> layers (h' ! 0) = layers ds_levee @ new \<and> length new = 1"
    using berm_build_pairs [of "berm_alg ''clay'' 20 10 1 6 2" 0 "[ds_levee]" vertex_blind_intersections
            "(160 / 9, 20 / 9)" "(214 / 9, 73 / 45)" "(127 / 5, 0)" ?g]
      w pA_levee_blind pB_levee pC_levee_blind
    by (simp add: ints_levee_blind) blast
  then obtain h'' new' where a':
    "berm_build ?g vertex_blind_intersections (berm_alg ''clay'' 20 10 1 6 2) 0 [ds_levee] = (Inr 0, h'')"
    "layers (h'' ! 0) = layers ds_levee @ new'" "length new' = 1"
    by blast
  have b: "berm_build ?g polyline_polyline_intersections (berm_alg ''clay'' 20 10 1 6 9) 0 [ds_levee]
       = (Inl (ValueError [Txt ''The berm continues outside of the right limit of the geometry, cannot create berm'']),
          [ds_levee])"
    using berm_build_pairs [of "berm_alg ''clay'' 20 10 1 6 9" 0 "[ds_levee]" polyline_polyline_intersections
            "(10, 10)" "(16, 47 / 5)" "(127 / 5, 0)" ?g]
      w pA_levee9 pB_levee9 pC_levee9
    by (simp add: ints_levee9)
  show ?thesis using a a' b one by (simp add: ints_levee ints_levee9 ints_levee_blind)
qed

text \<open>
  The claim as stated fails on the levee with a berm of height 9, whose top line meets the
  corner (10, 10) of the surface: the helper of the spec reports that corner once for each of
  the two edges that share it, and the three intersections make the run raise ValueError, not
  the execution error of the algorithms.
\<close>

theorem berm_build_counterexample:
  "berm_intersections polyline_polyline_intersections ds_levee (10, 10) (16, 47 / 5) (127 / 5, 0)
     = [(10, 10), (10, 10), (127 / 5, 0)]
   \<and> berm_build (recomputed_geometry levee_union) polyline_polyline_intersections
       (berm_alg ''clay'' 20 10 1 6 9) 0 [ds_levee]
       = (Inl (ValueError [Txt ''The berm continues outside of the right limit of the geometry, cannot create berm'']),
          [ds_levee])"
proof -
  have "berm_build (recomputed_geometry levee_union) polyline_polyline_intersections
       (berm_alg ''clay'' 20 10 1 6 9) 0 [ds_levee]
       = (Inl (ValueError [Txt ''The berm continues outside of the right limit of the geometry, cannot create berm'']),
          [ds_levee])"
    by (rule berm_build_odd_run [where pA = "(10, 10)" and pB = "(16, 47 / 5)" and pC = "(127 / 5, 0)"])
       (simp_all add: berm_alg_size pA_levee9 pB_levee9 pC_levee9 ints_levee9)
  then show ?thesis using ints_levee9 by simp
qed

end
